theory Spec2Isabelle
  imports Main
begin

section \<open>Data model of lazycache.go\<close>

text \<open>
  A value of Go type \<open>interface{}\<close> is modelled as \<open>'v option\<close>: \<open>None\<close> is the nil
  interface, \<open>Some x\<close> any non-nil value. A value of type \<open>error\<close> is \<open>error option\<close>,
  \<open>None\<close> being the nil error. Instants (\<open>time.Time\<close>) and durations
  (\<open>time.Duration\<close>) are integers; \<open>t.Add(d)\<close> is \<open>t + d\<close> and \<open>t.After(u)\<close> is
  \<open>t > u\<close>. The integers are unbounded: the instants of a run are far from the ends of
  the range of \<open>time.Time\<close>. The fetch functions do not call the cache themselves.
\<close>

datatype error = Error string

text \<open>The only run-time panic the code of lazycache.go can raise by itself: calling a nil
  function value (\<open>cache.fetcher(id)\<close> or \<open>cache.groupFetcher()\<close> with the field nil).\<close>

datatype panic = NilFuncCall

record 'v Item =
  object :: "'v option"
  expires :: int

text \<open>
  The fetch functions are supplied by the user and may have effects of their own (the test
  fixtures count their calls). They are modelled as functions on a user state \<open>'w\<close>, which
  they receive and return. A \<open>GroupFetcher\<close> returns a Go map, which may be nil
  (\<open>None\<close>); a non-nil map is the list of its entries in the order in which
  \<open>range\<close> visits them (the keys of a Go map are distinct).
\<close>

type_synonym ('v, 'w) Fetcher =
  "string \<Rightarrow> 'w \<Rightarrow> ('v option \<times> error option) \<times> 'w"

type_synonym ('v, 'w) GroupFetcher =
  "'w \<Rightarrow> ((string \<times> 'v option) list option \<times> error option) \<times> 'w"

text \<open>The struct \<open>LazyCache\<close>. A nil function field is \<open>None\<close>. The lock is left out:
  every operation below runs as one atomic step.\<close>

record ('v, 'w) LazyCache =
  fetcher :: "('v, 'w) Fetcher option"
  groupFetcher :: "('v, 'w) GroupFetcher option"
  ttl :: int
  items :: "string \<rightharpoonup> 'v Item"

text \<open>
  What surrounds the cache while it runs: the clock (the \<open>n\<close>-th call of
  \<open>time.Now()\<close> returns \<open>clock n\<close>, and \<open>reads\<close> counts the calls made so far), the user
  state of the fetch functions, the goroutines started by \<open>go\<close> that have not run yet, and
  a log of the calls made to the fetch functions. The log is not in the source: it records
  each call at the place where the source makes it, so that "fetches exactly once" and
  "does not fetch" can be stated.
\<close>

datatype call = FetcherCall string | GroupFetcherCall

datatype task = FetchTask string | GroupFetchTask string

record 'w runtime =
  clock :: "nat \<Rightarrow> int"
  reads :: nat
  world :: 'w
  trace :: "call list"
  spawned :: "task list"

section \<open>Operations\<close>

definition time_Now :: "'w runtime \<Rightarrow> int \<times> 'w runtime" where
  "time_Now rt = (clock rt (reads rt), rt\<lparr>reads := Suc (reads rt)\<rparr>)"

text \<open>The statement \<open>go f(x)\<close> starts a goroutine and goes on without waiting for it.\<close>

definition go :: "task \<Rightarrow> 'w runtime \<Rightarrow> 'w runtime" where
  "go t rt = rt\<lparr>spawned := spawned rt @ [t]\<rparr>"

text \<open>The constructors. The last argument is the capacity hint of \<open>make\<close>, which has no
  effect on what the map holds.\<close>

definition New :: "('v, 'w) Fetcher option \<Rightarrow> int \<Rightarrow> int \<Rightarrow> ('v, 'w) LazyCache" where
  "New f t hint = \<lparr>fetcher = f, groupFetcher = None, ttl = t, items = Map.empty\<rparr>"

definition NewGroup ::
  "('v, 'w) GroupFetcher option \<Rightarrow> ('v, 'w) Fetcher option \<Rightarrow> int \<Rightarrow> int \<Rightarrow> ('v, 'w) LazyCache" where
  "NewGroup g f t hint = \<lparr>fetcher = f, groupFetcher = g, ttl = t, items = Map.empty\<rparr>"

definition SwapCache ::
  "('v, 'w) Fetcher option \<Rightarrow> ('v, 'w) GroupFetcher option \<Rightarrow> ('v, 'w) LazyCache
     \<Rightarrow> ('v, 'w) LazyCache" where
  "SwapCache f g cache = cache\<lparr>fetcher := f, groupFetcher := g\<rparr>"

definition Set ::
  "('v, 'w) LazyCache \<Rightarrow> string \<Rightarrow> 'v option \<Rightarrow> 'w runtime
     \<Rightarrow> ('v, 'w) LazyCache \<times> 'w runtime" where
  "Set cache key obj rt =
     (case items cache key of
        Some current \<Rightarrow>
          (let (now, rt') = time_Now rt
           in (cache\<lparr>items := (items cache)(key \<mapsto>
                  current\<lparr>expires := now + ttl cache, object := obj\<rparr>)\<rparr>, rt'))
      | None \<Rightarrow>
          (let (now, rt') = time_Now rt
           in (cache\<lparr>items := (items cache)(key \<mapsto>
                  \<lparr>object = obj, expires = now + ttl cache\<rparr>)\<rparr>, rt')))"

definition Fetch ::
  "('v, 'w) LazyCache \<Rightarrow> string \<Rightarrow> 'w runtime
     \<Rightarrow> panic + (('v option \<times> bool) \<times> ('v, 'w) LazyCache \<times> 'w runtime)" where
  "Fetch cache key rt =
     (case fetcher cache of
        None \<Rightarrow> Inl NilFuncCall
      | Some f \<Rightarrow>
          (let ((obj, err), w') = f key (world rt);
               rt1 = rt\<lparr>world := w', trace := trace rt @ [FetcherCall key]\<rparr>
           in if err \<noteq> None then Inr ((None, False), cache, rt1)
              else (let (cache', rt2) = Set cache key obj rt1
                    in Inr ((obj, obj \<noteq> None), cache', rt2))))"

text \<open>The loop \<open>for k, v := range objects\<close> of \<open>groupFetch\<close>, with its variable \<open>res\<close>.\<close>

fun range_objects ::
  "('v, 'w) LazyCache \<Rightarrow> string \<Rightarrow> (string \<times> 'v option) list \<Rightarrow> 'v option \<Rightarrow> 'w runtime
     \<Rightarrow> 'v option \<times> ('v, 'w) LazyCache \<times> 'w runtime" where
  "range_objects cache key [] res rt = (res, cache, rt)"
| "range_objects cache key ((k, v) # kvs) res rt =
     (let (cache', rt') = Set cache k v rt
      in range_objects cache' key kvs (if k = key then v else res) rt')"

definition groupFetch ::
  "('v, 'w) LazyCache \<Rightarrow> string \<Rightarrow> 'w runtime
     \<Rightarrow> panic + (('v option \<times> bool) \<times> ('v, 'w) LazyCache \<times> 'w runtime)" where
  "groupFetch cache key rt =
     (case groupFetcher cache of
        None \<Rightarrow> Inl NilFuncCall
      | Some g \<Rightarrow>
          (let ((objects, err), w') = g (world rt);
               rt1 = rt\<lparr>world := w', trace := trace rt @ [GroupFetcherCall]\<rparr>;
               fallback = (if fetcher cache = None then Inr ((None, False), cache, rt1)
                           else Fetch cache key rt1)
           in if err \<noteq> None \<or> objects = None then fallback
              else (case objects of
                      None \<Rightarrow> fallback
                    | Some kvs \<Rightarrow>
                        (let (res, cache', rt2) = range_objects cache key kvs None rt1
                         in Inr ((res, res \<noteq> None), cache', rt2)))))"

definition Get ::
  "('v, 'w) LazyCache \<Rightarrow> string \<Rightarrow> 'w runtime
     \<Rightarrow> panic + (('v option \<times> bool) \<times> ('v, 'w) LazyCache \<times> 'w runtime)" where
  "Get cache key rt =
     (case items cache key of
        None \<Rightarrow>
          (if groupFetcher cache \<noteq> None then groupFetch cache key rt
           else Fetch cache key rt)
      | Some item \<Rightarrow>
          (let expires' = expires item;
               object' = object item;
               (now, rt1) = time_Now rt;
               rt2 = (if now > expires'
                      then (if groupFetcher cache \<noteq> None then go (GroupFetchTask key) rt1
                            else go (FetchTask key) rt1)
                      else rt1)
           in Inr ((object', object' \<noteq> None), cache, rt2)))"

text \<open>The body of a goroutine started by \<open>Get\<close>: it makes the call and drops what the call
  returns. It reads the fetch functions of the cache when it runs.\<close>

fun run ::
  "task \<Rightarrow> ('v, 'w) LazyCache \<Rightarrow> 'w runtime \<Rightarrow> panic + (('v, 'w) LazyCache \<times> 'w runtime)" where
  "run (FetchTask key) cache rt = map_sum (\<lambda>p. p) snd (Fetch cache key rt)"
| "run (GroupFetchTask key) cache rt = map_sum (\<lambda>p. p) snd (groupFetch cache key rt)"

section \<open>The fetch functions of the tests\<close>

text \<open>
  The fetch functions of the test file, over a user state that holds the two counters
  \<open>count\<close> and \<open>groupCount\<close> of the tests (in this order); the cached values are
  integers. The group functions return a map, as the type \<open>GroupFetcher\<close> of
  lazycache.go asks.
\<close>

definition countFetcher :: "(int, int \<times> int) Fetcher" where
  "countFetcher key w = ((Some (fst w + 1), None), (fst w + 1, snd w))"

definition nilFetcher :: "(int, int \<times> int) Fetcher" where
  "nilFetcher key w = ((None, None), (fst w + 1, snd w))"

definition errorFetcher :: "(int, int \<times> int) Fetcher" where
  "errorFetcher key w = ((None, Some (Error ''oops'')), w)"

definition groupStoreFetcher :: "(int, int \<times> int) GroupFetcher" where
  "groupStoreFetcher w =
     ((Some [(''Hi'', Some (snd w)), (''Bye'', Some (snd w))], None), w)"

definition groupCountFetcher :: "(int, int \<times> int) GroupFetcher" where
  "groupCountFetcher w = ((Some [(''Hi'', Some (snd w + 1))], None), (fst w, snd w + 1))"

definition groupNilFetcher :: "(int, int \<times> int) GroupFetcher" where
  "groupNilFetcher w = ((None, None), (fst w, snd w + 1))"

definition groupErrorFetcher :: "(int, int \<times> int) GroupFetcher" where
  "groupErrorFetcher w = ((None, Some (Error ''oops'')), w)"

text \<open>Two more group functions, not in the tests: one returns a map that is not nil and has
  no entry (\<open>map[string]interface{}{}\<close>), the other a map that holds nil for "Hi".\<close>

definition groupEmptyFetcher :: "(int, int \<times> int) GroupFetcher" where
  "groupEmptyFetcher w = ((Some [], None), (fst w, snd w + 1))"

definition groupNilValueFetcher :: "(int, int \<times> int) GroupFetcher" where
  "groupNilValueFetcher w = ((Some [(''Hi'', None)], None), (fst w, snd w + 1))"

text \<open>A clock that starts at \<open>t0\<close> and moves by one unit at each reading, and the runtime of a
  test at its start: both counters at 0, nothing logged, no goroutine.\<close>

definition ticking :: "int \<Rightarrow> nat \<Rightarrow> int" where
  "ticking t0 n = t0 + int n"

definition start :: "int \<Rightarrow> (int \<times> int) runtime" where
  "start t0 = \<lparr>clock = ticking t0, reads = 0, world = (0, 0), trace = [], spawned = []\<rparr>"

text \<open>The entry that several tests put in the map by hand: the value 99, expired at \<open>t\<close>.\<close>

definition item99 :: "int \<Rightarrow> int Item" where
  "item99 t = \<lparr>object = Some 99, expires = t\<rparr>"

text \<open>The value a reader sees for a key: nil when the key has no entry or its entry holds
  nil. This is the first component of what \<open>Get\<close> returns for a key that has an entry.\<close>

definition visible :: "('v, 'w) LazyCache \<Rightarrow> string \<Rightarrow> 'v option" where
  "visible cache key = (case items cache key of None \<Rightarrow> None | Some item \<Rightarrow> object item)"

section \<open>Basic facts\<close>

lemma Item_overwritten:
  "(item :: 'v Item)\<lparr>expires := t, object := obj\<rparr> = \<lparr>object = obj, expires = t\<rparr>"
  by (cases item) simp

lemma Set_eq:
  "Set cache key obj rt =
     (cache\<lparr>items := (items cache)(key \<mapsto>
         \<lparr>object = obj, expires = clock rt (reads rt) + ttl cache\<rparr>)\<rparr>,
      rt\<lparr>reads := Suc (reads rt)\<rparr>)"
  by (simp add: Set_def time_Now_def Item_overwritten split: option.split)

lemma Fetch_error:
  assumes "fetcher cache = Some f" and "f key (world rt) = ((obj, Some e), w')"
  shows "Fetch cache key rt =
           Inr ((None, False), cache, rt\<lparr>world := w', trace := trace rt @ [FetcherCall key]\<rparr>)"
  using assms by (simp add: Fetch_def)

lemma Fetch_success:
  assumes "fetcher cache = Some f" and "f key (world rt) = ((obj, None), w')"
  shows "Fetch cache key rt =
           Inr ((obj, obj \<noteq> None),
                cache\<lparr>items := (items cache)(key \<mapsto>
                   \<lparr>object = obj, expires = clock rt (reads rt) + ttl cache\<rparr>)\<rparr>,
                rt\<lparr>world := w', trace := trace rt @ [FetcherCall key],
                   reads := Suc (reads rt)\<rparr>)"
  using assms by (simp add: Fetch_def Set_eq)

lemma Get_hit:
  assumes "items cache key = Some item"
  shows "Get cache key rt =
           Inr ((object item, object item \<noteq> None), cache,
                if clock rt (reads rt) > expires item
                then go (if groupFetcher cache \<noteq> None then GroupFetchTask key else FetchTask key)
                       (rt\<lparr>reads := Suc (reads rt)\<rparr>)
                else rt\<lparr>reads := Suc (reads rt)\<rparr>)"
  using assms by (simp add: Get_def time_Now_def Let_def)

lemma Get_miss:
  assumes "items cache key = None"
  shows "Get cache key rt =
           (if groupFetcher cache \<noteq> None then groupFetch cache key rt else Fetch cache key rt)"
  using assms by (simp add: Get_def)

lemma Fetch_found:
  "Fetch cache key rt = Inr ((v, found), cache', rt') \<Longrightarrow> found = (v \<noteq> None)"
  by (auto simp: Fetch_def Let_def split: option.splits prod.splits if_splits)

lemma groupFetch_found:
  "groupFetch cache key rt = Inr ((v, found), cache', rt') \<Longrightarrow> found = (v \<noteq> None)"
  by (auto simp: groupFetch_def Let_def dest: Fetch_found
        split: option.splits prod.splits if_splits)

lemma Get_found:
  "Get cache key rt = Inr ((v, found), cache', rt') \<Longrightarrow> found = (v \<noteq> None)"
  by (cases "items cache key")
     (auto simp: Get_miss Get_hit dest: Fetch_found groupFetch_found split: if_splits)

lemma Fetch_returns:
  "fetcher cache \<noteq> None \<Longrightarrow> \<exists>r. Fetch cache key rt = Inr r"
  by (auto simp: Fetch_def Let_def split: option.splits prod.splits)

lemma groupFetch_returns:
  "groupFetcher cache \<noteq> None \<Longrightarrow> \<exists>r. groupFetch cache key rt = Inr r"
  using Fetch_returns [of cache]
  by (auto simp: groupFetch_def Let_def split: option.splits prod.splits)

lemma Get_returns:
  "groupFetcher cache \<noteq> None \<or> fetcher cache \<noteq> None \<or> items cache key \<noteq> None
     \<Longrightarrow> \<exists>r. Get cache key rt = Inr r"
  using Fetch_returns [of cache key rt] groupFetch_returns [of cache key rt]
  by (cases "items cache key") (auto simp: Get_miss Get_hit)

text \<open>The loop of \<open>groupFetch\<close>: what it leaves alone, what it stores, what it returns.\<close>

lemma range_objects_Cons:
  "range_objects cache key ((k, v) # kvs) res rt =
     range_objects (fst (Set cache k v rt)) key kvs (if k = key then v else res)
       (snd (Set cache k v rt))"
  by (simp add: case_prod_beta)

lemma range_objects_frame:
  "range_objects cache key kvs res rt = (res', cache', rt') \<Longrightarrow>
     fetcher cache' = fetcher cache \<and> groupFetcher cache' = groupFetcher cache
     \<and> ttl cache' = ttl cache \<and> rt' = rt\<lparr>reads := reads rt + length kvs\<rparr>"
proof (induction kvs arbitrary: cache res rt)
  case Nil
  then show ?case by simp
next
  case (Cons kv kvs)
  obtain k v where kv: "kv = (k, v)" by (cases kv)
  from Cons.prems Cons.IH [of "fst (Set cache k v rt)" "if k = key then v else res"
      "snd (Set cache k v rt)"]
  show ?case by (simp add: kv Set_eq)
qed

lemma range_objects_untouched:
  "range_objects cache key kvs res rt = (res', cache', rt') \<Longrightarrow> k \<notin> fst ` set kvs \<Longrightarrow>
     items cache' k = items cache k"
proof (induction kvs arbitrary: cache res rt)
  case Nil
  then show ?case by simp
next
  case (Cons kv kvs)
  obtain k0 v where kv: "kv = (k0, v)" by (cases kv)
  from Cons.prems Cons.IH [of "fst (Set cache k0 v rt)" "if k0 = key then v else res"
      "snd (Set cache k0 v rt)"]
  show ?case by (simp add: kv Set_eq)
qed

lemma range_objects_stored:
  "range_objects cache key kvs res rt = (res', cache', rt') \<Longrightarrow> distinct (map fst kvs) \<Longrightarrow>
     i < length kvs \<Longrightarrow>
     items cache' (fst (kvs ! i)) =
       Some \<lparr>object = snd (kvs ! i), expires = clock rt (reads rt + i) + ttl cache\<rparr>"
proof (induction kvs arbitrary: cache res rt i)
  case Nil
  then show ?case by simp
next
  case (Cons kv kvs)
  obtain k v where kv: "kv = (k, v)" by (cases kv)
  let ?c1 = "fst (Set cache k v rt)" and ?rt1 = "snd (Set cache k v rt)"
  have run: "range_objects ?c1 key kvs (if k = key then v else res) ?rt1 = (res', cache', rt')"
    using Cons.prems(1) unfolding kv range_objects_Cons .
  show ?case
  proof (cases i)
    case 0
    have "k \<notin> fst ` set kvs" using Cons.prems(2) by (simp add: kv)
    from range_objects_untouched [OF run this] show ?thesis
      by (simp add: 0 kv Set_eq)
  next
    case (Suc j)
    have "j < length kvs" and "distinct (map fst kvs)"
      using Cons.prems(2,3) by (simp_all add: Suc)
    from Cons.IH [OF run this(2) this(1)] show ?thesis
      by (simp add: Suc Set_eq)
  qed
qed

lemma range_objects_res:
  "range_objects cache key kvs res rt = (res', cache', rt') \<Longrightarrow> distinct (map fst kvs) \<Longrightarrow>
     res' = (case map_of kvs key of None \<Rightarrow> res | Some x \<Rightarrow> x)"
proof (induction kvs arbitrary: cache res rt)
  case Nil
  then show ?case by simp
next
  case (Cons kv kvs)
  obtain k v where kv: "kv = (k, v)" by (cases kv)
  have d: "distinct (map fst kvs)" and nk: "k \<notin> fst ` set kvs"
    using Cons.prems(2) by (simp_all add: kv)
  have run: "range_objects (fst (Set cache k v rt)) key kvs (if k = key then v else res)
               (snd (Set cache k v rt)) = (res', cache', rt')"
    using Cons.prems(1) unfolding kv range_objects_Cons .
  have "k = key \<Longrightarrow> map_of kvs key = None"
    using nk by (simp add: map_of_eq_None_iff)
  with Cons.IH [OF run d] show ?case
    by (auto simp: kv)
qed

lemma range_objects_visible_lost:
  "range_objects cache key kvs res rt = (res', cache', rt') \<Longrightarrow> visible cache k \<noteq> None \<Longrightarrow>
     visible cache' k = None \<Longrightarrow> (k, None) \<in> set kvs"
proof (induction kvs arbitrary: cache res rt)
  case Nil
  then show ?case by simp
next
  case (Cons kv kvs)
  obtain k0 v where kv: "kv = (k0, v)" by (cases kv)
  let ?c1 = "fst (Set cache k0 v rt)"
  have run: "range_objects ?c1 key kvs (if k0 = key then v else res)
               (snd (Set cache k0 v rt)) = (res', cache', rt')"
    using Cons.prems(1) unfolding kv range_objects_Cons .
  show ?case
  proof (cases "visible ?c1 k = None")
    case True
    with Cons.prems(2) have "k0 = k \<and> v = None"
      by (auto simp: visible_def Set_eq split: if_splits)
    then show ?thesis by (simp add: kv)
  next
    case False
    from Cons.IH [OF run False Cons.prems(3)] show ?thesis by simp
  qed
qed

text \<open>The two ways out of \<open>groupFetch\<close>.\<close>

lemma groupFetch_success:
  assumes "groupFetcher cache = Some g"
    and "g (world rt) = ((Some kvs, None), w')"
  shows "groupFetch cache key rt =
           (let (res, cache', rt2) =
                  range_objects cache key kvs None
                    (rt\<lparr>world := w', trace := trace rt @ [GroupFetcherCall]\<rparr>)
            in Inr ((res, res \<noteq> None), cache', rt2))"
  using assms by (simp add: groupFetch_def)

lemma groupFetch_failure:
  assumes "groupFetcher cache = Some g"
    and "g (world rt) = ((m, ge), w1)"
    and "ge \<noteq> None \<or> m = None"
  shows "groupFetch cache key rt =
           (if fetcher cache = None
            then Inr ((None, False), cache,
                      rt\<lparr>world := w1, trace := trace rt @ [GroupFetcherCall]\<rparr>)
            else Fetch cache key (rt\<lparr>world := w1, trace := trace rt @ [GroupFetcherCall]\<rparr>))"
  using assms by (auto simp: groupFetch_def Let_def)

lemma Fetch_trace:
  "Fetch cache key rt = Inr (r, cache', rt') \<Longrightarrow> trace rt' = trace rt @ [FetcherCall key]"
  by (auto simp: Fetch_def Let_def Set_eq split: option.splits prod.splits if_splits)

lemma groupFetch_success_effect:
  assumes "groupFetcher cache = Some g"
    and "g (world rt) = ((Some kvs, None), w')"
    and "distinct (map fst kvs)"
  shows "\<exists>v cache'.
           groupFetch cache key rt =
             Inr ((v, v \<noteq> None), cache',
                  rt\<lparr>world := w', trace := trace rt @ [GroupFetcherCall],
                     reads := reads rt + length kvs\<rparr>)
           \<and> v = (case map_of kvs key of None \<Rightarrow> None | Some x \<Rightarrow> x)
           \<and> (key \<notin> fst ` set kvs \<longrightarrow> v = None)
           \<and> (\<forall>i<length kvs. items cache' (fst (kvs ! i)) =
                 Some \<lparr>object = snd (kvs ! i),
                       expires = clock rt (reads rt + i) + ttl cache\<rparr>)
           \<and> (\<forall>k. k \<notin> fst ` set kvs \<longrightarrow> items cache' k = items cache k)
           \<and> fetcher cache' = fetcher cache \<and> groupFetcher cache' = groupFetcher cache
           \<and> ttl cache' = ttl cache"
proof -
  let ?rt1 = "rt\<lparr>world := w', trace := trace rt @ [GroupFetcherCall]\<rparr>"
  obtain v cache' rt2 where loop: "range_objects cache key kvs None ?rt1 = (v, cache', rt2)"
    by (cases "range_objects cache key kvs None ?rt1") auto
  have frame: "fetcher cache' = fetcher cache" "groupFetcher cache' = groupFetcher cache"
      "ttl cache' = ttl cache" "rt2 = ?rt1\<lparr>reads := reads ?rt1 + length kvs\<rparr>"
    using range_objects_frame [OF loop] by simp_all
  have res: "v = (case map_of kvs key of None \<Rightarrow> None | Some x \<Rightarrow> x)"
    using range_objects_res [OF loop assms(3)] .
  have absent: "key \<notin> fst ` set kvs \<longrightarrow> v = None"
  proof
    assume "key \<notin> fst ` set kvs"
    then have "map_of kvs key = None" by (simp add: map_of_eq_None_iff)
    then show "v = None" by (simp add: res)
  qed
  have stored: "\<forall>i<length kvs. items cache' (fst (kvs ! i)) =
      Some \<lparr>object = snd (kvs ! i), expires = clock rt (reads rt + i) + ttl cache\<rparr>"
    using range_objects_stored [OF loop assms(3)] by simp
  have others: "\<forall>k. k \<notin> fst ` set kvs \<longrightarrow> items cache' k = items cache k"
    using range_objects_untouched [OF loop] by simp
  have "groupFetch cache key rt = Inr ((v, v \<noteq> None), cache', rt2)"
    by (simp add: groupFetch_success [OF assms(1,2)] loop)
  with frame res absent stored others show ?thesis by simp
qed

text \<open>How the value seen for a key can go from present to nil.\<close>

lemma visible_SwapCache: "visible (SwapCache f g cache) k = visible cache k"
  by (simp add: visible_def SwapCache_def)

lemma Set_visible_lost:
  "Set cache key obj rt = (cache', rt') \<Longrightarrow> visible cache k \<noteq> None \<Longrightarrow>
     visible cache' k = None \<Longrightarrow> k = key \<and> obj = None"
  by (auto simp: Set_eq visible_def split: if_splits)

lemma Fetch_visible_lost:
  assumes "Fetch cache key rt = Inr (r, cache', rt')"
    and "visible cache k \<noteq> None" and "visible cache' k = None"
  shows "k = key \<and> (\<exists>f w'. fetcher cache = Some f \<and> f key (world rt) = ((None, None), w'))"
proof (cases "fetcher cache")
  case None
  with assms(1) show ?thesis by (simp add: Fetch_def)
next
  case (Some f)
  obtain obj err w' where call: "f key (world rt) = ((obj, err), w')"
    by (cases "f key (world rt)") auto
  show ?thesis
  proof (cases err)
    case None
    from Fetch_success [OF Some call [unfolded None]] assms
    have "k = key \<and> obj = None"
      by (auto simp: visible_def split: if_splits)
    with Some call None show ?thesis by simp
  next
    case (Some e)
    from Fetch_error [OF \<open>fetcher cache = Some f\<close> call [unfolded Some]] assms
    show ?thesis by simp
  qed
qed

lemma groupFetch_visible_lost:
  assumes "groupFetch cache key rt = Inr (r, cache', rt')"
    and "visible cache k \<noteq> None" and "visible cache' k = None"
  shows "\<exists>g m ge w1. groupFetcher cache = Some g \<and> g (world rt) = ((m, ge), w1)
           \<and> ((ge = None \<and> (\<exists>kvs. m = Some kvs \<and> (k, None) \<in> set kvs))
              \<or> ((ge \<noteq> None \<or> m = None) \<and> k = key
                  \<and> (\<exists>f w'. fetcher cache = Some f \<and> f key w1 = ((None, None), w'))))"
proof (cases "groupFetcher cache")
  case None
  with assms(1) show ?thesis by (simp add: groupFetch_def)
next
  case (Some g)
  obtain m ge w1 where call: "g (world rt) = ((m, ge), w1)"
    by (cases "g (world rt)") auto
  let ?rt1 = "rt\<lparr>world := w1, trace := trace rt @ [GroupFetcherCall]\<rparr>"
  show ?thesis
  proof (cases "ge \<noteq> None \<or> m = None")
    case True
    note fail = groupFetch_failure [OF Some call True, of key]
    have set: "fetcher cache \<noteq> None"
    proof
      assume "fetcher cache = None"
      with fail assms(1) have "cache' = cache" by simp
      with assms(2,3) show False by simp
    qed
    with fail assms(1) have "Fetch cache key ?rt1 = Inr (r, cache', rt')" by simp
    from Fetch_visible_lost [OF this assms(2,3)]
    have "k = key \<and> (\<exists>f w'. fetcher cache = Some f \<and> f key w1 = ((None, None), w'))"
      by simp
    with Some call True show ?thesis by blast
  next
    case False
    then obtain kvs where m: "m = Some kvs" and ge: "ge = None" by auto
    obtain v c2 rt2 where loop: "range_objects cache key kvs None ?rt1 = (v, c2, rt2)"
      by (cases "range_objects cache key kvs None ?rt1") auto
    from groupFetch_success [OF Some call [unfolded m ge], of key] loop assms(1)
    have "c2 = cache'" by simp
    with range_objects_visible_lost [OF loop assms(2)] assms(3)
    have "(k, None) \<in> set kvs" by simp
    with Some call m ge show ?thesis by blast
  qed
qed

lemma Get_visible_lost:
  assumes "Get cache key rt = Inr (r, cache', rt')"
    and "visible cache k \<noteq> None" and "visible cache' k = None"
  shows "items cache key = None
         \<and> (\<exists>g kvs w1. groupFetcher cache = Some g
               \<and> g (world rt) = ((Some kvs, None), w1) \<and> (k, None) \<in> set kvs)"
proof (cases "items cache key")
  case (Some item)
  from Get_hit [OF Some, of rt] assms show ?thesis by simp
next
  case None
  with assms(2) have neq: "k \<noteq> key" by (auto simp: visible_def)
  show ?thesis
  proof (cases "groupFetcher cache = None")
    case True
    with Get_miss [OF None, of rt] assms(1)
    have "Fetch cache key rt = Inr (r, cache', rt')" by simp
    from Fetch_visible_lost [OF this assms(2,3)] neq show ?thesis by simp
  next
    case False
    with Get_miss [OF None, of rt] assms(1)
    have "groupFetch cache key rt = Inr (r, cache', rt')" by simp
    from groupFetch_visible_lost [OF this assms(2,3)] neq None show ?thesis by auto
  qed
qed

text \<open>\<open>SwapCache\<close>, and which function a fetch calls.\<close>

lemma SwapCache_fields:
  "items (SwapCache f g cache) = items cache" "ttl (SwapCache f g cache) = ttl cache"
  "fetcher (SwapCache f g cache) = f" "groupFetcher (SwapCache f g cache) = g"
  by (simp_all add: SwapCache_def)

lemma SwapCache_forgets:
  "items other = items cache \<Longrightarrow> ttl other = ttl cache \<Longrightarrow>
     SwapCache f g other = SwapCache f g cache"
  by (simp add: SwapCache_def)

lemma Fetch_calls:
  assumes "fetcher cache = Some fs" and "fs key (world rt) = ((obj, err), w')"
  shows "\<exists>r cache' rt'. Fetch cache key rt = Inr (r, cache', rt') \<and> world rt' = w'
           \<and> trace rt' = trace rt @ [FetcherCall key]
           \<and> r = (if err \<noteq> None then (None, False) else (obj, obj \<noteq> None))"
proof (cases err)
  case None
  with Fetch_success [OF assms(1), of key rt obj w'] assms(2) show ?thesis by simp
next
  case (Some e)
  with Fetch_error [OF assms(1), of key rt obj e w'] assms(2) show ?thesis by simp
qed

lemma groupFetch_calls:
  assumes "groupFetcher cache = Some gs" and "gs (world rt) = ((Some kvs, None), wg)"
  shows "\<exists>r cache'. groupFetch cache key rt =
           Inr (r, cache',
                rt\<lparr>world := wg, trace := trace rt @ [GroupFetcherCall],
                   reads := reads rt + length kvs\<rparr>)"
proof -
  let ?rt1 = "rt\<lparr>world := wg, trace := trace rt @ [GroupFetcherCall]\<rparr>"
  obtain v cache' rt2 where loop: "range_objects cache key kvs None ?rt1 = (v, cache', rt2)"
    by (cases "range_objects cache key kvs None ?rt1") auto
  from range_objects_frame [OF loop] have "rt2 = ?rt1\<lparr>reads := reads ?rt1 + length kvs\<rparr>"
    by simp
  with groupFetch_success [OF assms, of key] loop show ?thesis by simp
qed

section \<open>Fresh entries\<close>

text \<open>
  C2. For a key holding an entry that is not expired (the clock read by \<open>Get\<close> is not after
  \<open>expires\<close>), \<open>Get\<close> returns the stored value and leaves the cache as it is; no fetch
  function is called (the log and the user state are unchanged) and no goroutine is started.
\<close>

theorem Get_fresh_returns_stored_without_fetch:
  assumes "items cache key = Some item"
    and "\<not> clock rt (reads rt) > expires item"
  shows "Get cache key rt =
           Inr ((object item, object item \<noteq> None), cache, rt\<lparr>reads := Suc (reads rt)\<rparr>)"
  using assms by (simp add: Get_def time_Now_def Let_def)

theorem Get_fresh_returns_stored_without_fetch_witness:
  "items ((New (Some countFetcher) 1000 1)\<lparr>items := [''Hi'' \<mapsto> item99 50]\<rparr>) ''Hi''
     = Some (item99 50)
   \<and> \<not> clock (start 7) (reads (start 7)) > expires (item99 50)
   \<and> Get ((New (Some countFetcher) 1000 1)\<lparr>items := [''Hi'' \<mapsto> item99 50]\<rparr>) ''Hi'' (start 7)
     = Inr ((Some 99, True),
            (New (Some countFetcher) 1000 1)\<lparr>items := [''Hi'' \<mapsto> item99 50]\<rparr>,
            (start 7)\<lparr>reads := 1\<rparr>)"
  using Get_fresh_returns_stored_without_fetch
    [of "(New (Some countFetcher) 1000 1)\<lparr>items := [''Hi'' \<mapsto> item99 50]\<rparr>"
        "''Hi''" "item99 50" "start 7"]
  by (simp add: New_def start_def ticking_def item99_def)

text \<open>
  C10. For a key whose entry holds nil and is not expired, \<open>Get\<close> returns \<open>(nil, false)\<close>,
  calls no fetch function and starts no goroutine: the cache, the user state, the log and the
  goroutine pool are as before. A not-found answer therefore does not tell that a fetch was
  attempted during the call.
\<close>

theorem Get_fresh_nil_entry_suppresses_fetch:
  assumes "items cache key = Some item"
    and "object item = None"
    and "\<not> clock rt (reads rt) > expires item"
  shows "Get cache key rt = Inr ((None, False), cache, rt\<lparr>reads := Suc (reads rt)\<rparr>)"
  using assms by (simp add: Get_hit)

theorem Get_fresh_nil_entry_suppresses_fetch_witness:
  "Get (New (Some nilFetcher) 1000 1) ''Hi'' (start 0)
     = Inr ((None, False),
            (New (Some nilFetcher) 1000 1)\<lparr>items := [''Hi'' \<mapsto> \<lparr>object = None, expires = 1000\<rparr>]\<rparr>,
            (start 0)\<lparr>world := (1, 0), trace := [FetcherCall ''Hi''], reads := 1\<rparr>)
   \<and> Get ((New (Some nilFetcher) 1000 1)\<lparr>items := [''Hi'' \<mapsto> \<lparr>object = None, expires = 1000\<rparr>]\<rparr>)
         ''Hi'' ((start 0)\<lparr>world := (1, 0), trace := [FetcherCall ''Hi''], reads := 1\<rparr>)
     = Inr ((None, False),
            (New (Some nilFetcher) 1000 1)\<lparr>items := [''Hi'' \<mapsto> \<lparr>object = None, expires = 1000\<rparr>]\<rparr>,
            (start 0)\<lparr>world := (1, 0), trace := [FetcherCall ''Hi''], reads := 2\<rparr>)"
  using Get_fresh_nil_entry_suppresses_fetch
    [of "(New (Some nilFetcher) 1000 1)\<lparr>items := [''Hi'' \<mapsto> \<lparr>object = None, expires = 1000\<rparr>]\<rparr>"
        "''Hi''" "\<lparr>object = None, expires = 1000\<rparr>"
        "(start 0)\<lparr>world := (1, 0), trace := [FetcherCall ''Hi''], reads := 1\<rparr>"]
  by (simp add: New_def start_def ticking_def nilFetcher_def Get_miss
        Fetch_success [where f = nilFetcher and obj = None and w' = "(1, 0)"])

section \<open>Expired entries\<close>

text \<open>
  C1. For a key whose entry has expired (the clock read by \<open>Get\<close> is after \<open>expires\<close>),
  \<open>Get\<close> returns the stored, stale value to its caller and leaves the cache as it is. By the
  time it returns it has called no fetch function (user state and log are unchanged); it
  has started one goroutine, for \<open>groupFetch\<close> when a group function is set and for
  \<open>Fetch\<close> otherwise. What \<open>Get\<close> returns is the same whatever the fetch functions of
  the cache are, so neither the result nor the error of the refresh reaches the caller.

  The goroutine that was started is the refresh: whenever it runs, on whatever the cache and
  the runtime are by then, it makes the call of \<open>groupFetch\<close> or of \<open>Fetch\<close> for the key
  and drops the pair the call returns. On the cache \<open>Get\<close> left, a single-key refresh that
  succeeds stores the new value with a new expiry and logs one call for the key; one that
  fails leaves the cache as it is; a group refresh that succeeds calls the group function
  once and makes one \<open>Set\<close> for each pair of its map.
\<close>

theorem Get_expired_returns_stale_and_starts_refresh:
  assumes "items cache key = Some item"
    and "clock rt (reads rt) > expires item"
  shows "Get cache key rt =
           Inr ((object item, object item \<noteq> None), cache,
                rt\<lparr>reads := Suc (reads rt),
                   spawned := spawned rt @
                     [if groupFetcher cache \<noteq> None then GroupFetchTask key else FetchTask key]\<rparr>)
         \<and> (\<forall>f g. \<exists>rt'. Get (cache\<lparr>fetcher := f, groupFetcher := g\<rparr>) key rt =
                Inr ((object item, object item \<noteq> None),
                     cache\<lparr>fetcher := f, groupFetcher := g\<rparr>, rt')
                \<and> world rt' = world rt \<and> trace rt' = trace rt)
         \<and> (\<forall>c r. run (if groupFetcher cache \<noteq> None then GroupFetchTask key
                        else FetchTask key) c r =
                map_sum (\<lambda>p. p) snd
                  (if groupFetcher cache \<noteq> None then groupFetch c key r else Fetch c key r))
         \<and> (groupFetcher cache = None \<and> fetcher cache = Some fs
              \<and> fs key (world later) = ((obj, None), w') \<longrightarrow>
            run (if groupFetcher cache \<noteq> None then GroupFetchTask key else FetchTask key)
              cache later =
              Inr (cache\<lparr>items := (items cache)(key \<mapsto>
                     \<lparr>object = obj, expires = clock later (reads later) + ttl cache\<rparr>)\<rparr>,
                   later\<lparr>world := w', trace := trace later @ [FetcherCall key],
                      reads := Suc (reads later)\<rparr>))
         \<and> (groupFetcher cache = None \<and> fetcher cache = Some fs
              \<and> fs key (world later) = ((obj, Some e), w') \<longrightarrow>
            run (if groupFetcher cache \<noteq> None then GroupFetchTask key else FetchTask key)
              cache later =
              Inr (cache, later\<lparr>world := w', trace := trace later @ [FetcherCall key]\<rparr>))
         \<and> (groupFetcher cache = Some gs \<and> gs (world later) = ((Some kvs, None), wg) \<longrightarrow>
            (\<exists>cache'.
               run (if groupFetcher cache \<noteq> None then GroupFetchTask key else FetchTask key)
                 cache later =
                 Inr (cache',
                      later\<lparr>world := wg, trace := trace later @ [GroupFetcherCall],
                         reads := reads later + length kvs\<rparr>)))"
proof (intro conjI impI allI)
  show "Get cache key rt =
           Inr ((object item, object item \<noteq> None), cache,
                rt\<lparr>reads := Suc (reads rt),
                   spawned := spawned rt @
                     [if groupFetcher cache \<noteq> None then GroupFetchTask key else FetchTask key]\<rparr>)"
    using assms by (simp add: Get_hit go_def)
next
  fix f g
  show "\<exists>rt'. Get (cache\<lparr>fetcher := f, groupFetcher := g\<rparr>) key rt =
                Inr ((object item, object item \<noteq> None),
                     cache\<lparr>fetcher := f, groupFetcher := g\<rparr>, rt')
                \<and> world rt' = world rt \<and> trace rt' = trace rt"
    using assms by (simp add: Get_hit go_def)
next
  fix c r
  show "run (if groupFetcher cache \<noteq> None then GroupFetchTask key else FetchTask key) c r =
          map_sum (\<lambda>p. p) snd
            (if groupFetcher cache \<noteq> None then groupFetch c key r else Fetch c key r)"
    by simp
next
  assume "groupFetcher cache = None \<and> fetcher cache = Some fs
              \<and> fs key (world later) = ((obj, None), w')"
  then show "run (if groupFetcher cache \<noteq> None then GroupFetchTask key else FetchTask key)
              cache later =
              Inr (cache\<lparr>items := (items cache)(key \<mapsto>
                     \<lparr>object = obj, expires = clock later (reads later) + ttl cache\<rparr>)\<rparr>,
                   later\<lparr>world := w', trace := trace later @ [FetcherCall key],
                      reads := Suc (reads later)\<rparr>)"
    using Fetch_success [of cache fs key later obj w'] by simp
next
  assume "groupFetcher cache = None \<and> fetcher cache = Some fs
              \<and> fs key (world later) = ((obj, Some e), w')"
  then show "run (if groupFetcher cache \<noteq> None then GroupFetchTask key else FetchTask key)
              cache later =
              Inr (cache, later\<lparr>world := w', trace := trace later @ [FetcherCall key]\<rparr>)"
    using Fetch_error [of cache fs key later obj e w'] by simp
next
  assume a: "groupFetcher cache = Some gs \<and> gs (world later) = ((Some kvs, None), wg)"
  with groupFetch_calls [of cache gs later kvs wg key]
  obtain r cache' where "groupFetch cache key later =
      Inr (r, cache',
           later\<lparr>world := wg, trace := trace later @ [GroupFetcherCall],
              reads := reads later + length kvs\<rparr>)"
    by auto
  with a show "\<exists>cache'.
               run (if groupFetcher cache \<noteq> None then GroupFetchTask key else FetchTask key)
                 cache later =
                 Inr (cache',
                      later\<lparr>world := wg, trace := trace later @ [GroupFetcherCall],
                         reads := reads later + length kvs\<rparr>)"
    by simp
qed

theorem Get_expired_returns_stale_and_starts_refresh_witness:
  "items ((New (Some errorFetcher) 1 1)\<lparr>items := [''paul'' \<mapsto> item99 (- 3600)]\<rparr>) ''paul''
     = Some (item99 (- 3600))
   \<and> clock (start 0) (reads (start 0)) > expires (item99 (- 3600))
   \<and> Get ((New (Some errorFetcher) 1 1)\<lparr>items := [''paul'' \<mapsto> item99 (- 3600)]\<rparr>)
         ''paul'' (start 0)
     = Inr ((Some 99, True),
            (New (Some errorFetcher) 1 1)\<lparr>items := [''paul'' \<mapsto> item99 (- 3600)]\<rparr>,
            (start 0)\<lparr>reads := 1, spawned := [FetchTask ''paul'']\<rparr>)
   \<and> run (FetchTask ''paul'')
         ((New (Some errorFetcher) 1 1)\<lparr>items := [''paul'' \<mapsto> item99 (- 3600)]\<rparr>)
         ((start 0)\<lparr>reads := 1\<rparr>)
     = Inr ((New (Some errorFetcher) 1 1)\<lparr>items := [''paul'' \<mapsto> item99 (- 3600)]\<rparr>,
            (start 0)\<lparr>reads := 1, world := (0, 0), trace := [FetcherCall ''paul'']\<rparr>)
   \<and> Get ((New (Some countFetcher) 1 1)
              \<lparr>items := [''Hi'' \<mapsto> \<lparr>object = Some 1, expires = 1\<rparr>]\<rparr>)
         ''Hi'' ((start 5)\<lparr>world := (1, 0)\<rparr>)
     = Inr ((Some 1, True),
            (New (Some countFetcher) 1 1)
              \<lparr>items := [''Hi'' \<mapsto> \<lparr>object = Some 1, expires = 1\<rparr>]\<rparr>,
            (start 5)\<lparr>world := (1, 0), reads := 1, spawned := [FetchTask ''Hi'']\<rparr>)
   \<and> run (FetchTask ''Hi'')
         ((New (Some countFetcher) 1 1)
              \<lparr>items := [''Hi'' \<mapsto> \<lparr>object = Some 1, expires = 1\<rparr>]\<rparr>)
         ((start 5)\<lparr>world := (1, 0), reads := 1\<rparr>)
     = Inr ((New (Some countFetcher) 1 1)
              \<lparr>items := [''Hi'' \<mapsto> \<lparr>object = Some 2, expires = 7\<rparr>]\<rparr>,
            (start 5)\<lparr>world := (2, 0), trace := [FetcherCall ''Hi''], reads := 2\<rparr>)
   \<and> Get ((New (Some countFetcher) 1 1)
              \<lparr>items := [''Hi'' \<mapsto> \<lparr>object = Some 2, expires = 7\<rparr>]\<rparr>)
         ''Hi'' ((start 5)\<lparr>world := (2, 0), trace := [FetcherCall ''Hi''], reads := 2\<rparr>)
     = Inr ((Some 2, True),
            (New (Some countFetcher) 1 1)
              \<lparr>items := [''Hi'' \<mapsto> \<lparr>object = Some 2, expires = 7\<rparr>]\<rparr>,
            (start 5)\<lparr>world := (2, 0), trace := [FetcherCall ''Hi''], reads := 3\<rparr>)"
  using Get_expired_returns_stale_and_starts_refresh
    [where cache = "(New (Some errorFetcher) 1 1)\<lparr>items := [''paul'' \<mapsto> item99 (- 3600)]\<rparr>"
       and key = "''paul''" and item = "item99 (- 3600)" and rt = "start 0"
       and later = "(start 0)\<lparr>reads := 1\<rparr>" and fs = errorFetcher and obj = None
       and e = "Error ''oops''" and w' = "(0, 0)"]
    Get_expired_returns_stale_and_starts_refresh
    [where cache = "(New (Some countFetcher) 1 1)
              \<lparr>items := [''Hi'' \<mapsto> \<lparr>object = Some 1, expires = 1\<rparr>]\<rparr>"
       and key = "''Hi''" and item = "\<lparr>object = Some 1, expires = 1\<rparr>"
       and rt = "(start 5)\<lparr>world := (1, 0)\<rparr>"
       and later = "(start 5)\<lparr>world := (1, 0), reads := 1\<rparr>" and fs = countFetcher
       and obj = "Some 2" and w' = "(2, 0)"]
  by (simp add: New_def start_def ticking_def item99_def errorFetcher_def countFetcher_def
        Get_def time_Now_def Let_def)

section \<open>The found flag\<close>

text \<open>
  C9. Whenever \<open>Get\<close>, \<open>Fetch\<close> or \<open>groupFetch\<close> returns a pair \<open>(value, found)\<close>,
  \<open>found\<close> is true exactly when the value is not nil, on every path. Each of the three
  does return (it does not panic on a nil function) as soon as the function it has to call
  is set: \<open>Fetch\<close> when \<open>fetcher\<close> is set, \<open>groupFetch\<close> when \<open>groupFetcher\<close> is set,
  \<open>Get\<close> when one of the two is set or the key has an entry.
\<close>

theorem found_is_value_not_nil:
  "(Get cache key rt = Inr ((v, found), cache', rt') \<longrightarrow> found = (v \<noteq> None))
   \<and> (Fetch cache key rt = Inr ((v, found), cache', rt') \<longrightarrow> found = (v \<noteq> None))
   \<and> (groupFetch cache key rt = Inr ((v, found), cache', rt') \<longrightarrow> found = (v \<noteq> None))
   \<and> (groupFetcher cache \<noteq> None \<or> fetcher cache \<noteq> None \<or> items cache key \<noteq> None
        \<longrightarrow> (\<exists>r. Get cache key rt = Inr r))
   \<and> (fetcher cache \<noteq> None \<longrightarrow> (\<exists>r. Fetch cache key rt = Inr r))
   \<and> (groupFetcher cache \<noteq> None \<longrightarrow> (\<exists>r. groupFetch cache key rt = Inr r))"
  using Get_found [of cache key rt v found cache' rt']
    Fetch_found [of cache key rt v found cache' rt']
    groupFetch_found [of cache key rt v found cache' rt']
    Get_returns [of cache key rt] Fetch_returns [of cache key rt]
    groupFetch_returns [of cache key rt]
  by blast

theorem found_is_value_not_nil_witness:
  "Get (NewGroup (Some groupNilFetcher) (Some countFetcher) 60 1) ''Hi'' (start 0)
     = Inr ((Some 1, True),
            (NewGroup (Some groupNilFetcher) (Some countFetcher) 60 1)
              \<lparr>items := [''Hi'' \<mapsto> \<lparr>object = Some 1, expires = 60\<rparr>]\<rparr>,
            (start 0)\<lparr>world := (1, 1), trace := [GroupFetcherCall, FetcherCall ''Hi''],
               reads := 1\<rparr>)
   \<and> True = (Some (1::int) \<noteq> None)
   \<and> Fetch (New (Some nilFetcher) 60 1) ''Hi'' (start 0)
     = Inr ((None, False),
            (New (Some nilFetcher) 60 1)\<lparr>items := [''Hi'' \<mapsto> \<lparr>object = None, expires = 60\<rparr>]\<rparr>,
            (start 0)\<lparr>world := (1, 0), trace := [FetcherCall ''Hi''], reads := 1\<rparr>)
   \<and> False = ((None :: int option) \<noteq> None)
   \<and> groupFetch (NewGroup (Some groupErrorFetcher) None 60 1) ''Hi'' (start 0)
     = Inr ((None, False), NewGroup (Some groupErrorFetcher) None 60 1,
            (start 0)\<lparr>world := (0, 0), trace := [GroupFetcherCall]\<rparr>)
   \<and> (\<exists>r. Get (New (Some countFetcher) 60 1) ''Hi'' (start 0) = Inr r)"
  using found_is_value_not_nil
    [where cache = "NewGroup (Some groupNilFetcher) (Some countFetcher) 60 1"
       and key = "''Hi''" and rt = "start 0" and v = "Some 1" and found = True
       and cache' = "(NewGroup (Some groupNilFetcher) (Some countFetcher) 60 1)
              \<lparr>items := [''Hi'' \<mapsto> \<lparr>object = Some 1, expires = 60\<rparr>]\<rparr>"
       and rt' = "(start 0)\<lparr>world := (1, 1),
               trace := [GroupFetcherCall, FetcherCall ''Hi''], reads := 1\<rparr>"]
    found_is_value_not_nil
    [where cache = "New (Some nilFetcher) 60 1"
       and key = "''Hi''" and rt = "start 0" and v = None and found = False
       and cache' = "(New (Some nilFetcher) 60 1)
              \<lparr>items := [''Hi'' \<mapsto> \<lparr>object = None, expires = 60\<rparr>]\<rparr>"
       and rt' = "(start 0)\<lparr>world := (1, 0), trace := [FetcherCall ''Hi''], reads := 1\<rparr>"]
    found_is_value_not_nil
    [where cache = "NewGroup (Some groupErrorFetcher) None 60 1"
       and key = "''Hi''" and rt = "start 0" and v = None and found = False
       and cache' = "NewGroup (Some groupErrorFetcher) None 60 1"
       and rt' = "(start 0)\<lparr>world := (0, 0), trace := [GroupFetcherCall]\<rparr>"]
    found_is_value_not_nil
    [where cache = "New (Some countFetcher) 60 1" and key = "''Hi''" and rt = "start 0"]
  by (simp add: New_def NewGroup_def start_def ticking_def Get_def groupFetch_def Fetch_def
        Set_eq groupNilFetcher_def groupErrorFetcher_def countFetcher_def nilFetcher_def)

section \<open>A single-key fetch that fails\<close>

text \<open>
  C4. When the single-key fetch function returns an error, \<open>Fetch\<close> returns
  \<open>(nil, false)\<close> and the cache it leaves is the cache it found: no entry is created, changed
  or removed. The same holds when the call runs in a goroutine. A later \<open>Get\<close> for a key
  that had an entry, at any later moment, still returns the value of that entry. For a key
  with no entry (and no group function), \<open>Get\<close> itself makes the failing call, returns
  \<open>(nil, false)\<close> and stores nothing.
\<close>

theorem Fetch_error_leaves_entries_untouched:
  assumes "fetcher cache = Some f"
    and "f key (world rt) = ((obj, Some e), w')"
  shows "Fetch cache key rt =
           Inr ((None, False), cache,
                rt\<lparr>world := w', trace := trace rt @ [FetcherCall key]\<rparr>)
         \<and> run (FetchTask key) cache rt =
           Inr (cache, rt\<lparr>world := w', trace := trace rt @ [FetcherCall key]\<rparr>)
         \<and> (\<forall>item rt2. items cache key = Some item \<longrightarrow>
               (\<exists>rt3. Get cache key rt2 =
                        Inr ((object item, object item \<noteq> None), cache, rt3)))
         \<and> (items cache key = None \<and> groupFetcher cache = None \<longrightarrow>
               Get cache key rt =
                 Inr ((None, False), cache,
                      rt\<lparr>world := w', trace := trace rt @ [FetcherCall key]\<rparr>))"
  using assms by (simp add: Fetch_error Get_hit Get_miss)

theorem Fetch_error_leaves_entries_untouched_witness:
  "fetcher ((New (Some errorFetcher) 1 1)\<lparr>items := [''paul'' \<mapsto> item99 (- 3600)]\<rparr>)
     = Some errorFetcher
   \<and> errorFetcher ''paul'' (world (start 0)) = ((None, Some (Error ''oops'')), (0, 0))
   \<and> Fetch ((New (Some errorFetcher) 1 1)\<lparr>items := [''paul'' \<mapsto> item99 (- 3600)]\<rparr>)
         ''paul'' (start 0)
     = Inr ((None, False),
            (New (Some errorFetcher) 1 1)\<lparr>items := [''paul'' \<mapsto> item99 (- 3600)]\<rparr>,
            (start 0)\<lparr>world := (0, 0), trace := [FetcherCall ''paul'']\<rparr>)
   \<and> Get ((New (Some errorFetcher) 1 1)\<lparr>items := [''paul'' \<mapsto> item99 (- 3600)]\<rparr>)
         ''paul'' ((start 0)\<lparr>world := (0, 0), trace := [FetcherCall ''paul'']\<rparr>)
     = Inr ((Some 99, True),
            (New (Some errorFetcher) 1 1)\<lparr>items := [''paul'' \<mapsto> item99 (- 3600)]\<rparr>,
            (start 0)\<lparr>world := (0, 0), trace := [FetcherCall ''paul''], reads := 1,
               spawned := [FetchTask ''paul'']\<rparr>)
   \<and> Get (New (Some errorFetcher) 1 1) ''paul'' (start 0)
     = Inr ((None, False), New (Some errorFetcher) 1 1,
            (start 0)\<lparr>world := (0, 0), trace := [FetcherCall ''paul'']\<rparr>)"
  using Fetch_error_leaves_entries_untouched
    [of "(New (Some errorFetcher) 1 1)\<lparr>items := [''paul'' \<mapsto> item99 (- 3600)]\<rparr>"
        errorFetcher "''paul''" "start 0" None "Error ''oops''" "(0, 0)"]
    Fetch_error_leaves_entries_untouched
    [of "New (Some errorFetcher) 1 1"
        errorFetcher "''paul''" "start 0" None "Error ''oops''" "(0, 0)"]
  by (simp add: New_def start_def ticking_def item99_def errorFetcher_def Get_hit go_def)

section \<open>Group fetch\<close>

text \<open>
  C7. When the group function succeeds with a map that is not nil (its keys are distinct, as
  the keys of a Go map are), \<open>groupFetch\<close> stores every pair of the map with \<open>Set\<close>: the
  \<open>i\<close>-th pair visited gets the value of the pair and the expiry \<open>now + ttl\<close>, where
  \<open>now\<close> is the reading of the clock made by its own call of \<open>Set\<close>. Keys that are not in the
  map keep their entries. The value returned is the one the map holds for the requested key;
  when the map does not hold the key the call returns \<open>(nil, false)\<close>. In both cases the
  only call logged is the one to the group function: there is no fallback.
\<close>

theorem groupFetch_success_stores_every_pair:
  assumes "groupFetcher cache = Some g"
    and "g (world rt) = ((Some kvs, None), w')"
    and "distinct (map fst kvs)"
  shows "\<exists>v cache'.
           groupFetch cache key rt =
             Inr ((v, v \<noteq> None), cache',
                  rt\<lparr>world := w', trace := trace rt @ [GroupFetcherCall],
                     reads := reads rt + length kvs\<rparr>)
           \<and> v = (case map_of kvs key of None \<Rightarrow> None | Some x \<Rightarrow> x)
           \<and> (key \<notin> fst ` set kvs \<longrightarrow> v = None)
           \<and> (\<forall>i<length kvs. items cache' (fst (kvs ! i)) =
                 Some \<lparr>object = snd (kvs ! i),
                       expires = clock rt (reads rt + i) + ttl cache\<rparr>)
           \<and> (\<forall>k. k \<notin> fst ` set kvs \<longrightarrow> items cache' k = items cache k)
           \<and> fetcher cache' = fetcher cache \<and> groupFetcher cache' = groupFetcher cache
           \<and> ttl cache' = ttl cache"
  using assms by (rule groupFetch_success_effect)

theorem groupFetch_success_stores_every_pair_witness:
  "groupFetcher (NewGroup (Some groupStoreFetcher) None 1000 1) = Some groupStoreFetcher
   \<and> groupStoreFetcher (world (start 0))
     = ((Some [(''Hi'', Some 0), (''Bye'', Some 0)], None), (0, 0))
   \<and> distinct (map fst [(''Hi'', Some (0::int)), (''Bye'', Some 0)])
   \<and> groupFetch (NewGroup (Some groupStoreFetcher) None 1000 1) ''Bye'' (start 0)
     = Inr ((Some 0, True),
            (NewGroup (Some groupStoreFetcher) None 1000 1)
              \<lparr>items := [''Hi'' \<mapsto> \<lparr>object = Some 0, expires = 1000\<rparr>,
                         ''Bye'' \<mapsto> \<lparr>object = Some 0, expires = 1001\<rparr>]\<rparr>,
            (start 0)\<lparr>world := (0, 0), trace := [GroupFetcherCall], reads := 2\<rparr>)
   \<and> Get ((NewGroup (Some groupStoreFetcher) None 1000 1)
              \<lparr>items := [''Hi'' \<mapsto> \<lparr>object = Some 0, expires = 1000\<rparr>,
                         ''Bye'' \<mapsto> \<lparr>object = Some 0, expires = 1001\<rparr>]\<rparr>)
         ''Hi'' ((start 0)\<lparr>world := (0, 0), trace := [GroupFetcherCall], reads := 2\<rparr>)
     = Inr ((Some 0, True),
            (NewGroup (Some groupStoreFetcher) None 1000 1)
              \<lparr>items := [''Hi'' \<mapsto> \<lparr>object = Some 0, expires = 1000\<rparr>,
                         ''Bye'' \<mapsto> \<lparr>object = Some 0, expires = 1001\<rparr>]\<rparr>,
            (start 0)\<lparr>world := (0, 0), trace := [GroupFetcherCall], reads := 3\<rparr>)"
  using groupFetch_success_stores_every_pair
    [of "NewGroup (Some groupStoreFetcher) None 1000 1" groupStoreFetcher "start 0"
        "[(''Hi'', Some 0), (''Bye'', Some 0)]" "(0, 0)" "''Bye''"]
  by (simp add: NewGroup_def start_def ticking_def groupStoreFetcher_def groupFetch_def Set_eq
        Get_def time_Now_def Let_def)

text \<open>
  C6, as the code has it. The fallback is taken when the group function returns an error or
  a nil map. Then, with a single-key function set, \<open>groupFetch\<close> is the call of \<open>Fetch\<close>
  for the requested key, made after the group call, and the log grows by the group call and
  exactly one single-key call for that key; with no single-key function set, the call
  returns \<open>(nil, false)\<close> and the cache is as before. A map that is not nil and has no entry is
  not a failure: nothing is stored, the call returns \<open>(nil, false)\<close> and the single-key
  function is not called, whether it is set or not.
\<close>

theorem groupFetch_failure_falls_back:
  assumes "groupFetcher cache = Some g"
    and "g (world rt) = ((m, ge), w1)"
  shows "((ge \<noteq> None \<or> m = None) \<and> fetcher cache \<noteq> None \<longrightarrow>
            groupFetch cache key rt =
              Fetch cache key (rt\<lparr>world := w1, trace := trace rt @ [GroupFetcherCall]\<rparr>)
            \<and> (\<exists>r cache' rt'. groupFetch cache key rt = Inr (r, cache', rt')
                  \<and> trace rt' = trace rt @ [GroupFetcherCall, FetcherCall key]))
         \<and> ((ge \<noteq> None \<or> m = None) \<and> fetcher cache = None \<longrightarrow>
            groupFetch cache key rt =
              Inr ((None, False), cache,
                   rt\<lparr>world := w1, trace := trace rt @ [GroupFetcherCall]\<rparr>))
         \<and> (ge = None \<and> m = Some [] \<longrightarrow>
            groupFetch cache key rt =
              Inr ((None, False), cache,
                   rt\<lparr>world := w1, trace := trace rt @ [GroupFetcherCall]\<rparr>))"
proof (intro conjI impI)
  let ?rt1 = "rt\<lparr>world := w1, trace := trace rt @ [GroupFetcherCall]\<rparr>"
  assume a: "(ge \<noteq> None \<or> m = None) \<and> fetcher cache \<noteq> None"
  then show eq: "groupFetch cache key rt = Fetch cache key ?rt1"
    using groupFetch_failure [OF assms, of key] by auto
  obtain res where "Fetch cache key ?rt1 = Inr res"
    using Fetch_returns [of cache key ?rt1] a by blast
  moreover obtain r cache' rt' where "res = (r, cache', rt')" by (cases res) auto
  ultimately have f: "Fetch cache key ?rt1 = Inr (r, cache', rt')" by simp
  from Fetch_trace [OF f] have "trace rt' = trace rt @ [GroupFetcherCall, FetcherCall key]"
    by simp
  with f eq show "\<exists>r cache' rt'. groupFetch cache key rt = Inr (r, cache', rt')
      \<and> trace rt' = trace rt @ [GroupFetcherCall, FetcherCall key]"
    by auto
next
  assume "(ge \<noteq> None \<or> m = None) \<and> fetcher cache = None"
  then show "groupFetch cache key rt =
      Inr ((None, False), cache, rt\<lparr>world := w1, trace := trace rt @ [GroupFetcherCall]\<rparr>)"
    using groupFetch_failure [OF assms, of key] by simp
next
  assume "ge = None \<and> m = Some []"
  then show "groupFetch cache key rt =
      Inr ((None, False), cache, rt\<lparr>world := w1, trace := trace rt @ [GroupFetcherCall]\<rparr>)"
    using groupFetch_success [OF assms(1), of rt "[]" w1 key] assms(2) by simp
qed

text \<open>
  C6 as stated fails for an empty map that is not nil: with such a group result and the
  counting single-key function set, \<open>groupFetch\<close> returns \<open>(nil, false)\<close>; the log holds the
  group call alone and the counter of the single-key function is still 0.
\<close>

theorem groupFetch_empty_map_no_fallback_counterexample:
  "groupFetch (NewGroup (Some groupEmptyFetcher) (Some countFetcher) 60 1) ''Hi'' (start 0)
     = Inr ((None, False), NewGroup (Some groupEmptyFetcher) (Some countFetcher) 60 1,
            (start 0)\<lparr>world := (0, 1), trace := [GroupFetcherCall]\<rparr>)"
  by (simp add: NewGroup_def start_def groupEmptyFetcher_def groupFetch_def)

theorem groupFetch_failure_falls_back_witness:
  "groupFetcher (NewGroup (Some groupNilFetcher) (Some countFetcher) 60 1) = Some groupNilFetcher
   \<and> groupNilFetcher (world (start 0)) = ((None, None), (0, 1))
   \<and> groupFetch (NewGroup (Some groupNilFetcher) (Some countFetcher) 60 1) ''Hi'' (start 0)
     = Inr ((Some 1, True),
            (NewGroup (Some groupNilFetcher) (Some countFetcher) 60 1)
              \<lparr>items := [''Hi'' \<mapsto> \<lparr>object = Some 1, expires = 60\<rparr>]\<rparr>,
            (start 0)\<lparr>world := (1, 1), trace := [GroupFetcherCall, FetcherCall ''Hi''],
               reads := 1\<rparr>)
   \<and> groupFetch (NewGroup (Some groupErrorFetcher) None 60 1) ''Hi'' (start 0)
     = Inr ((None, False), NewGroup (Some groupErrorFetcher) None 60 1,
            (start 0)\<lparr>world := (0, 0), trace := [GroupFetcherCall]\<rparr>)
   \<and> groupFetch (NewGroup (Some groupEmptyFetcher) (Some countFetcher) 60 1) ''Hi'' (start 0)
     = Inr ((None, False), NewGroup (Some groupEmptyFetcher) (Some countFetcher) 60 1,
            (start 0)\<lparr>world := (0, 1), trace := [GroupFetcherCall]\<rparr>)"
  using groupFetch_failure_falls_back
    [of "NewGroup (Some groupNilFetcher) (Some countFetcher) 60 1" groupNilFetcher "start 0"
        None None "(0, 1)" "''Hi''"]
    groupFetch_failure_falls_back
    [of "NewGroup (Some groupErrorFetcher) None 60 1" groupErrorFetcher "start 0"
        None "Some (Error ''oops'')" "(0, 0)" "''Hi''"]
    groupFetch_failure_falls_back
    [of "NewGroup (Some groupEmptyFetcher) (Some countFetcher) 60 1" groupEmptyFetcher "start 0"
        "Some []" None "(0, 1)" "''Hi''"]
  by (simp add: NewGroup_def start_def ticking_def groupNilFetcher_def groupErrorFetcher_def
        groupEmptyFetcher_def countFetcher_def Fetch_def Set_eq)

section \<open>Keys with no entry\<close>

text \<open>
  C3, as the code has it. For a key with no entry, \<open>Get\<close> makes its fetch before it
  returns: it calls the group function once when one is set, and the single-key function
  once otherwise.
  \<^item> No group function: when the single-key function succeeds its result is stored and
    \<open>Get\<close> returns \<open>(value, value != nil)\<close>; when it fails nothing is stored and \<open>Get\<close>
    returns \<open>(nil, false)\<close>.
  \<^item> The group function succeeds with a map that is not nil: every pair is stored and
    \<open>Get\<close> returns the value of the key in the map, with \<open>found = (value != nil)\<close>.
  \<^item> The group function fails or returns a nil map: with no single-key function set,
    nothing is stored and \<open>Get\<close> returns \<open>(nil, false)\<close>; with one set, \<open>Get\<close> goes on
    with one single-key fetch for the key, whose result is stored and returned when it
    succeeds, and which stores nothing and gives \<open>(nil, false)\<close> when it fails.
\<close>

theorem Get_miss_fetches_synchronously:
  assumes "items cache key = None"
  shows "(groupFetcher cache = None \<and> fetcher cache = Some f
            \<and> f key (world rt) = ((obj, None), w') \<longrightarrow>
          Get cache key rt =
            Inr ((obj, obj \<noteq> None),
                 cache\<lparr>items := (items cache)(key \<mapsto>
                    \<lparr>object = obj, expires = clock rt (reads rt) + ttl cache\<rparr>)\<rparr>,
                 rt\<lparr>world := w', trace := trace rt @ [FetcherCall key],
                    reads := Suc (reads rt)\<rparr>))
         \<and> (groupFetcher cache = None \<and> fetcher cache = Some f
            \<and> f key (world rt) = ((obj, Some e), w') \<longrightarrow>
          Get cache key rt =
            Inr ((None, False), cache,
                 rt\<lparr>world := w', trace := trace rt @ [FetcherCall key]\<rparr>))
         \<and> (groupFetcher cache = Some g \<and> g (world rt) = ((Some kvs, None), wg)
            \<and> distinct (map fst kvs) \<longrightarrow>
          (\<exists>v cache'.
             Get cache key rt =
               Inr ((v, v \<noteq> None), cache',
                    rt\<lparr>world := wg, trace := trace rt @ [GroupFetcherCall],
                       reads := reads rt + length kvs\<rparr>)
             \<and> v = (case map_of kvs key of None \<Rightarrow> None | Some x \<Rightarrow> x)
             \<and> (\<forall>i<length kvs. items cache' (fst (kvs ! i)) =
                   Some \<lparr>object = snd (kvs ! i),
                         expires = clock rt (reads rt + i) + ttl cache\<rparr>)
             \<and> (\<forall>k. k \<notin> fst ` set kvs \<longrightarrow> items cache' k = items cache k)))
         \<and> (groupFetcher cache = Some g \<and> g (world rt) = ((m, ge), wg)
            \<and> (ge \<noteq> None \<or> m = None) \<and> fetcher cache = None \<longrightarrow>
          Get cache key rt =
            Inr ((None, False), cache,
                 rt\<lparr>world := wg, trace := trace rt @ [GroupFetcherCall]\<rparr>))
         \<and> (groupFetcher cache = Some g \<and> g (world rt) = ((m, ge), wg)
            \<and> (ge \<noteq> None \<or> m = None) \<and> fetcher cache = Some f
            \<and> f key wg = ((obj, None), w') \<longrightarrow>
          Get cache key rt =
            Inr ((obj, obj \<noteq> None),
                 cache\<lparr>items := (items cache)(key \<mapsto>
                    \<lparr>object = obj, expires = clock rt (reads rt) + ttl cache\<rparr>)\<rparr>,
                 rt\<lparr>world := w', trace := trace rt @ [GroupFetcherCall, FetcherCall key],
                    reads := Suc (reads rt)\<rparr>))
         \<and> (groupFetcher cache = Some g \<and> g (world rt) = ((m, ge), wg)
            \<and> (ge \<noteq> None \<or> m = None) \<and> fetcher cache = Some f
            \<and> f key wg = ((obj, Some e), w') \<longrightarrow>
          Get cache key rt =
            Inr ((None, False), cache,
                 rt\<lparr>world := w', trace := trace rt @ [GroupFetcherCall, FetcherCall key]\<rparr>))"
proof (intro conjI impI)
  assume "groupFetcher cache = None \<and> fetcher cache = Some f
            \<and> f key (world rt) = ((obj, None), w')"
  then show "Get cache key rt =
            Inr ((obj, obj \<noteq> None),
                 cache\<lparr>items := (items cache)(key \<mapsto>
                    \<lparr>object = obj, expires = clock rt (reads rt) + ttl cache\<rparr>)\<rparr>,
                 rt\<lparr>world := w', trace := trace rt @ [FetcherCall key],
                    reads := Suc (reads rt)\<rparr>)"
    using assms by (simp add: Get_miss Fetch_success)
next
  assume "groupFetcher cache = None \<and> fetcher cache = Some f
            \<and> f key (world rt) = ((obj, Some e), w')"
  then show "Get cache key rt =
            Inr ((None, False), cache,
                 rt\<lparr>world := w', trace := trace rt @ [FetcherCall key]\<rparr>)"
    using assms by (simp add: Get_miss Fetch_error)
next
  assume a: "groupFetcher cache = Some g \<and> g (world rt) = ((Some kvs, None), wg)
            \<and> distinct (map fst kvs)"
  then have "Get cache key rt = groupFetch cache key rt"
    using assms by (simp add: Get_miss)
  with groupFetch_success_effect [of cache g rt kvs wg key] a
  show "\<exists>v cache'.
             Get cache key rt =
               Inr ((v, v \<noteq> None), cache',
                    rt\<lparr>world := wg, trace := trace rt @ [GroupFetcherCall],
                       reads := reads rt + length kvs\<rparr>)
             \<and> v = (case map_of kvs key of None \<Rightarrow> None | Some x \<Rightarrow> x)
             \<and> (\<forall>i<length kvs. items cache' (fst (kvs ! i)) =
                   Some \<lparr>object = snd (kvs ! i),
                         expires = clock rt (reads rt + i) + ttl cache\<rparr>)
             \<and> (\<forall>k. k \<notin> fst ` set kvs \<longrightarrow> items cache' k = items cache k)"
    by auto
next
  assume a: "groupFetcher cache = Some g \<and> g (world rt) = ((m, ge), wg)
            \<and> (ge \<noteq> None \<or> m = None) \<and> fetcher cache = None"
  then have "Get cache key rt = groupFetch cache key rt"
    using assms by (simp add: Get_miss)
  with groupFetch_failure [of cache g rt m ge wg key] a
  show "Get cache key rt =
            Inr ((None, False), cache,
                 rt\<lparr>world := wg, trace := trace rt @ [GroupFetcherCall]\<rparr>)"
    by simp
next
  assume a: "groupFetcher cache = Some g \<and> g (world rt) = ((m, ge), wg)
            \<and> (ge \<noteq> None \<or> m = None) \<and> fetcher cache = Some f
            \<and> f key wg = ((obj, None), w')"
  then have "Get cache key rt = groupFetch cache key rt"
    using assms by (simp add: Get_miss)
  with groupFetch_failure [of cache g rt m ge wg key] a
    Fetch_success [of cache f key "rt\<lparr>world := wg, trace := trace rt @ [GroupFetcherCall]\<rparr>"
      obj w']
  show "Get cache key rt =
            Inr ((obj, obj \<noteq> None),
                 cache\<lparr>items := (items cache)(key \<mapsto>
                    \<lparr>object = obj, expires = clock rt (reads rt) + ttl cache\<rparr>)\<rparr>,
                 rt\<lparr>world := w', trace := trace rt @ [GroupFetcherCall, FetcherCall key],
                    reads := Suc (reads rt)\<rparr>)"
    by simp
next
  assume a: "groupFetcher cache = Some g \<and> g (world rt) = ((m, ge), wg)
            \<and> (ge \<noteq> None \<or> m = None) \<and> fetcher cache = Some f
            \<and> f key wg = ((obj, Some e), w')"
  then have "Get cache key rt = groupFetch cache key rt"
    using assms by (simp add: Get_miss)
  with groupFetch_failure [of cache g rt m ge wg key] a
    Fetch_error [of cache f key "rt\<lparr>world := wg, trace := trace rt @ [GroupFetcherCall]\<rparr>"
      obj e w']
  show "Get cache key rt =
            Inr ((None, False), cache,
                 rt\<lparr>world := w', trace := trace rt @ [GroupFetcherCall, FetcherCall key]\<rparr>)"
    by simp
qed

text \<open>
  C3 as stated fails when a single-key function is set beside a group function that returns
  a nil map (the test \<open>TestGroupFallbackSavesTheObject\<close>): the key has no entry, the group
  result is absent, and yet \<open>Get\<close> returns \<open>(1, true)\<close>, stores the entry, and has called
  two fetch functions.
\<close>

theorem Get_miss_group_nil_fallback_counterexample:
  "items (NewGroup (Some groupNilFetcher) (Some countFetcher) 60 1) ''Hi'' = None
   \<and> groupNilFetcher (world (start 0)) = ((None, None), (0, 1))
   \<and> Get (NewGroup (Some groupNilFetcher) (Some countFetcher) 60 1) ''Hi'' (start 0)
     = Inr ((Some 1, True),
            (NewGroup (Some groupNilFetcher) (Some countFetcher) 60 1)
              \<lparr>items := [''Hi'' \<mapsto> \<lparr>object = Some 1, expires = 60\<rparr>]\<rparr>,
            (start 0)\<lparr>world := (1, 1), trace := [GroupFetcherCall, FetcherCall ''Hi''],
               reads := 1\<rparr>)"
  by (simp add: NewGroup_def start_def ticking_def Get_def groupFetch_def Fetch_def Set_eq
        groupNilFetcher_def countFetcher_def)

theorem Get_miss_fetches_synchronously_witness:
  "items (New (Some countFetcher) 60 1) ''Hi'' = None
   \<and> Get (New (Some countFetcher) 60 1) ''Hi'' (start 0)
     = Inr ((Some 1, True),
            (New (Some countFetcher) 60 1)
              \<lparr>items := [''Hi'' \<mapsto> \<lparr>object = Some 1, expires = 60\<rparr>]\<rparr>,
            (start 0)\<lparr>world := (1, 0), trace := [FetcherCall ''Hi''], reads := 1\<rparr>)
   \<and> Get (New (Some errorFetcher) 60 1) ''Hi'' (start 0)
     = Inr ((None, False), New (Some errorFetcher) 60 1,
            (start 0)\<lparr>world := (0, 0), trace := [FetcherCall ''Hi'']\<rparr>)
   \<and> Get (NewGroup (Some groupCountFetcher) None 60 1) ''Hi'' (start 0)
     = Inr ((Some 1, True),
            (NewGroup (Some groupCountFetcher) None 60 1)
              \<lparr>items := [''Hi'' \<mapsto> \<lparr>object = Some 1, expires = 60\<rparr>]\<rparr>,
            (start 0)\<lparr>world := (0, 1), trace := [GroupFetcherCall], reads := 1\<rparr>)
   \<and> Get (NewGroup (Some groupNilFetcher) None 60 1) ''Hi'' (start 0)
     = Inr ((None, False), NewGroup (Some groupNilFetcher) None 60 1,
            (start 0)\<lparr>world := (0, 1), trace := [GroupFetcherCall]\<rparr>)
   \<and> Get (NewGroup (Some groupErrorFetcher) (Some countFetcher) 60 1) ''Hi'' (start 0)
     = Inr ((Some 1, True),
            (NewGroup (Some groupErrorFetcher) (Some countFetcher) 60 1)
              \<lparr>items := [''Hi'' \<mapsto> \<lparr>object = Some 1, expires = 60\<rparr>]\<rparr>,
            (start 0)\<lparr>world := (1, 0), trace := [GroupFetcherCall, FetcherCall ''Hi''],
               reads := 1\<rparr>)
   \<and> Get (NewGroup (Some groupErrorFetcher) (Some errorFetcher) 60 1) ''Hi'' (start 0)
     = Inr ((None, False), NewGroup (Some groupErrorFetcher) (Some errorFetcher) 60 1,
            (start 0)\<lparr>world := (0, 0), trace := [GroupFetcherCall, FetcherCall ''Hi'']\<rparr>)"
  using Get_miss_fetches_synchronously
    [where cache = "New (Some countFetcher) 60 1" and key = "''Hi''" and rt = "start 0"
       and f = countFetcher and obj = "Some 1" and w' = "(1, 0)"]
    Get_miss_fetches_synchronously
    [where cache = "New (Some errorFetcher) 60 1" and key = "''Hi''" and rt = "start 0"
       and f = errorFetcher and obj = None and e = "Error ''oops''" and w' = "(0, 0)"]
    Get_miss_fetches_synchronously
    [where cache = "NewGroup (Some groupCountFetcher) None 60 1" and key = "''Hi''"
       and rt = "start 0" and g = groupCountFetcher and kvs = "[(''Hi'', Some 1)]"
       and wg = "(0, 1)"]
    Get_miss_fetches_synchronously
    [where cache = "NewGroup (Some groupNilFetcher) None 60 1" and key = "''Hi''"
       and rt = "start 0" and g = groupNilFetcher and m = None and ge = None
       and wg = "(0, 1)"]
    Get_miss_fetches_synchronously
    [where cache = "NewGroup (Some groupErrorFetcher) (Some countFetcher) 60 1"
       and key = "''Hi''" and rt = "start 0" and g = groupErrorFetcher and m = None
       and ge = "Some (Error ''oops'')" and wg = "(0, 0)" and f = countFetcher
       and obj = "Some 1" and w' = "(1, 0)"]
    Get_miss_fetches_synchronously
    [where cache = "NewGroup (Some groupErrorFetcher) (Some errorFetcher) 60 1"
       and key = "''Hi''" and rt = "start 0" and g = groupErrorFetcher and m = None
       and ge = "Some (Error ''oops'')" and wg = "(0, 0)" and f = errorFetcher
       and obj = None and e = "Error ''oops''" and w' = "(0, 0)"]
  by (simp add: New_def NewGroup_def start_def ticking_def countFetcher_def errorFetcher_def
        groupCountFetcher_def groupNilFetcher_def groupErrorFetcher_def
        Get_def groupFetch_def Fetch_def Set_eq)

section \<open>A fetch that succeeds with nil\<close>

text \<open>
  C5, as the code has it. A single-key fetch that succeeds with nil stores nil for the key
  with \<open>Set\<close>, over whatever the key held, and every later \<open>Get\<close> for the key returns
  \<open>(nil, false)\<close> while that entry stays. The value seen for a key goes from present to
  nil only through a \<open>Set\<close> of nil for that key, and such a \<open>Set\<close> is made in three ways:
  by a single-key fetch for the key that succeeds with nil (called directly or as the
  fallback of a failed group fetch), by a group fetch whose map holds nil for the key, and
  by a direct call of \<open>Set\<close> with nil. \<open>Get\<close> loses the value of a key only by the second
  way, while it fetches another key that has no entry. \<open>SwapCache\<close> never loses one.
\<close>

theorem nil_fetch_erases_value:
  "(fetcher cache = Some f \<and> f key (world rt) = ((None, None), w') \<longrightarrow>
      Fetch cache key rt =
        Inr ((None, False),
             cache\<lparr>items := (items cache)(key \<mapsto>
                \<lparr>object = None, expires = clock rt (reads rt) + ttl cache\<rparr>)\<rparr>,
             rt\<lparr>world := w', trace := trace rt @ [FetcherCall key],
                reads := Suc (reads rt)\<rparr>)
      \<and> (\<forall>rtb. \<exists>rtc.
            Get (cache\<lparr>items := (items cache)(key \<mapsto>
                   \<lparr>object = None, expires = clock rt (reads rt) + ttl cache\<rparr>)\<rparr>) key rtb =
              Inr ((None, False),
                   cache\<lparr>items := (items cache)(key \<mapsto>
                      \<lparr>object = None, expires = clock rt (reads rt) + ttl cache\<rparr>)\<rparr>,
                   rtc)))
   \<and> (Set cache key obj rt = (cache', rt') \<and> visible cache k \<noteq> None
        \<and> visible cache' k = None \<longrightarrow> k = key \<and> obj = None)
   \<and> (Fetch cache key rt = Inr (r, cache', rt') \<and> visible cache k \<noteq> None
        \<and> visible cache' k = None \<longrightarrow>
      k = key \<and> (\<exists>h w. fetcher cache = Some h \<and> h key (world rt) = ((None, None), w)))
   \<and> (groupFetch cache key rt = Inr (r, cache', rt') \<and> visible cache k \<noteq> None
        \<and> visible cache' k = None \<longrightarrow>
      (\<exists>g m ge wg. groupFetcher cache = Some g \<and> g (world rt) = ((m, ge), wg)
         \<and> ((ge = None \<and> (\<exists>kvs. m = Some kvs \<and> (k, None) \<in> set kvs))
            \<or> ((ge \<noteq> None \<or> m = None) \<and> k = key
                \<and> (\<exists>h w. fetcher cache = Some h \<and> h key wg = ((None, None), w))))))
   \<and> (Get cache key rt = Inr (r, cache', rt') \<and> visible cache k \<noteq> None
        \<and> visible cache' k = None \<longrightarrow>
      items cache key = None
      \<and> (\<exists>g kvs wg. groupFetcher cache = Some g
            \<and> g (world rt) = ((Some kvs, None), wg) \<and> (k, None) \<in> set kvs))
   \<and> visible (SwapCache fs gs cache) k = visible cache k"
proof (intro conjI impI)
  let ?c = "cache\<lparr>items := (items cache)(key \<mapsto>
                \<lparr>object = None, expires = clock rt (reads rt) + ttl cache\<rparr>)\<rparr>"
  assume a: "fetcher cache = Some f \<and> f key (world rt) = ((None, None), w')"
  then show "Fetch cache key rt =
        Inr ((None, False), ?c,
             rt\<lparr>world := w', trace := trace rt @ [FetcherCall key],
                reads := Suc (reads rt)\<rparr>)"
    using Fetch_success [of cache f key rt None w'] by simp
  have "items ?c key = Some \<lparr>object = None, expires = clock rt (reads rt) + ttl cache\<rparr>"
    by simp
  from Get_hit [OF this]
  show "\<forall>rtb. \<exists>rtc. Get ?c key rtb = Inr ((None, False), ?c, rtc)"
    by simp
next
  assume "Set cache key obj rt = (cache', rt') \<and> visible cache k \<noteq> None
        \<and> visible cache' k = None"
  then show "k = key" and "obj = None"
    using Set_visible_lost [of cache key obj rt cache' rt' k] by simp_all
next
  assume "Fetch cache key rt = Inr (r, cache', rt') \<and> visible cache k \<noteq> None
        \<and> visible cache' k = None"
  then show "k = key"
    and "\<exists>h w. fetcher cache = Some h \<and> h key (world rt) = ((None, None), w)"
    using Fetch_visible_lost [of cache key rt r cache' rt' k] by simp_all
next
  assume "groupFetch cache key rt = Inr (r, cache', rt') \<and> visible cache k \<noteq> None
        \<and> visible cache' k = None"
  then show "\<exists>g m ge wg. groupFetcher cache = Some g \<and> g (world rt) = ((m, ge), wg)
         \<and> ((ge = None \<and> (\<exists>kvs. m = Some kvs \<and> (k, None) \<in> set kvs))
            \<or> ((ge \<noteq> None \<or> m = None) \<and> k = key
                \<and> (\<exists>h w. fetcher cache = Some h \<and> h key wg = ((None, None), w))))"
    using groupFetch_visible_lost [of cache key rt r cache' rt' k] by simp
next
  assume "Get cache key rt = Inr (r, cache', rt') \<and> visible cache k \<noteq> None
        \<and> visible cache' k = None"
  then show "items cache key = None"
    and "\<exists>g kvs wg. groupFetcher cache = Some g
            \<and> g (world rt) = ((Some kvs, None), wg) \<and> (k, None) \<in> set kvs"
    using Get_visible_lost [of cache key rt r cache' rt' k] by simp_all
next
  show "visible (SwapCache fs gs cache) k = visible cache k"
    by (rule visible_SwapCache)
qed

text \<open>
  C5 as stated fails in its last part: the single-key path is not the only one. With a group
  function whose map holds nil for "Hi" and no single-key function at all, the key "Hi"
  goes from 99 to not-found: \<open>Get\<close> returns the stale 99 and starts the group refresh, the
  refresh stores nil, and the next \<open>Get\<close> returns \<open>(nil, false)\<close>. The log holds the group
  call alone.
\<close>

theorem group_nil_value_erases_counterexample:
  "visible ((NewGroup (Some groupNilValueFetcher) None 60 1)
              \<lparr>items := [''Hi'' \<mapsto> item99 (- 60)]\<rparr>) ''Hi'' = Some 99
   \<and> Get ((NewGroup (Some groupNilValueFetcher) None 60 1)
              \<lparr>items := [''Hi'' \<mapsto> item99 (- 60)]\<rparr>) ''Hi'' (start 0)
     = Inr ((Some 99, True),
            (NewGroup (Some groupNilValueFetcher) None 60 1)
              \<lparr>items := [''Hi'' \<mapsto> item99 (- 60)]\<rparr>,
            (start 0)\<lparr>reads := 1, spawned := [GroupFetchTask ''Hi'']\<rparr>)
   \<and> run (GroupFetchTask ''Hi'')
         ((NewGroup (Some groupNilValueFetcher) None 60 1)
              \<lparr>items := [''Hi'' \<mapsto> item99 (- 60)]\<rparr>)
         ((start 0)\<lparr>reads := 1, spawned := []\<rparr>)
     = Inr ((NewGroup (Some groupNilValueFetcher) None 60 1)
              \<lparr>items := [''Hi'' \<mapsto> \<lparr>object = None, expires = 61\<rparr>]\<rparr>,
            (start 0)\<lparr>world := (0, 1), trace := [GroupFetcherCall], reads := 2\<rparr>)
   \<and> Get ((NewGroup (Some groupNilValueFetcher) None 60 1)
              \<lparr>items := [''Hi'' \<mapsto> \<lparr>object = None, expires = 61\<rparr>]\<rparr>) ''Hi''
         ((start 0)\<lparr>world := (0, 1), trace := [GroupFetcherCall], reads := 2\<rparr>)
     = Inr ((None, False),
            (NewGroup (Some groupNilValueFetcher) None 60 1)
              \<lparr>items := [''Hi'' \<mapsto> \<lparr>object = None, expires = 61\<rparr>]\<rparr>,
            (start 0)\<lparr>world := (0, 1), trace := [GroupFetcherCall], reads := 3\<rparr>)"
  by (simp add: NewGroup_def start_def ticking_def item99_def visible_def
        groupNilValueFetcher_def Get_def time_Now_def go_def Let_def groupFetch_def Set_eq)

theorem nil_fetch_erases_value_witness:
  "fetcher ((New (Some nilFetcher) 60 1)\<lparr>items := [''Hi'' \<mapsto> item99 (- 60)]\<rparr>)
     = Some nilFetcher
   \<and> nilFetcher ''Hi'' (world (start 0)) = ((None, None), (1, 0))
   \<and> visible ((New (Some nilFetcher) 60 1)\<lparr>items := [''Hi'' \<mapsto> item99 (- 60)]\<rparr>) ''Hi''
     = Some 99
   \<and> Fetch ((New (Some nilFetcher) 60 1)\<lparr>items := [''Hi'' \<mapsto> item99 (- 60)]\<rparr>)
         ''Hi'' (start 0)
     = Inr ((None, False),
            (New (Some nilFetcher) 60 1)
              \<lparr>items := [''Hi'' \<mapsto> \<lparr>object = None, expires = 60\<rparr>]\<rparr>,
            (start 0)\<lparr>world := (1, 0), trace := [FetcherCall ''Hi''], reads := 1\<rparr>)
   \<and> visible ((New (Some nilFetcher) 60 1)
              \<lparr>items := [''Hi'' \<mapsto> \<lparr>object = None, expires = 60\<rparr>]\<rparr>) ''Hi'' = None
   \<and> Get ((New (Some nilFetcher) 60 1)
              \<lparr>items := [''Hi'' \<mapsto> \<lparr>object = None, expires = 60\<rparr>]\<rparr>) ''Hi''
         ((start 0)\<lparr>world := (1, 0), trace := [FetcherCall ''Hi''], reads := 1\<rparr>)
     = Inr ((None, False),
            (New (Some nilFetcher) 60 1)
              \<lparr>items := [''Hi'' \<mapsto> \<lparr>object = None, expires = 60\<rparr>]\<rparr>,
            (start 0)\<lparr>world := (1, 0), trace := [FetcherCall ''Hi''], reads := 2\<rparr>)"
  using nil_fetch_erases_value
    [where cache = "(New (Some nilFetcher) 60 1)\<lparr>items := [''Hi'' \<mapsto> item99 (- 60)]\<rparr>"
       and f = nilFetcher and key = "''Hi''" and rt = "start 0" and w' = "(1, 0)"
       and k = "''Hi''" and r = "(None, False)"
       and cache' = "(New (Some nilFetcher) 60 1)
              \<lparr>items := [''Hi'' \<mapsto> \<lparr>object = None, expires = 60\<rparr>]\<rparr>"
       and rt' = "(start 0)\<lparr>world := (1, 0), trace := [FetcherCall ''Hi''], reads := 1\<rparr>"]
  by (simp add: New_def start_def ticking_def item99_def visible_def nilFetcher_def
        Get_def time_Now_def Let_def)

section \<open>Swapping the fetch functions\<close>

text \<open>
  C8. \<open>SwapCache\<close> installs the two functions it is given and leaves the entries (values
  and expiries) and the ttl as they are; nothing of the old functions is left, since two
  caches with the same entries and ttl are equal after the same swap. After the swap:
  \<^item> for a key whose entry is not expired, \<open>Get\<close> returns the stored value, calls no
    function and starts no goroutine;
  \<^item> for a key whose entry is expired, \<open>Get\<close> returns the stale value and starts the
    refresh chosen by the new group function (\<open>groupFetch\<close> when it is set, \<open>Fetch\<close>
    otherwise);
  \<^item> for a key with no entry, \<open>Get\<close> is \<open>groupFetch\<close> when the new group function is
    set and \<open>Fetch\<close> otherwise;
  \<^item> \<open>Fetch\<close> on the swapped cache calls the new single-key function (the user state and
    the result are the ones it gives), and \<open>groupFetch\<close> calls the new group function,
    falling back to the new single-key function when it fails;
  \<^item> the goroutine started for an expired key makes one of these two calls when it runs.
\<close>

theorem SwapCache_keeps_entries_installs_strategies:
  "items (SwapCache f g cache) = items cache \<and> ttl (SwapCache f g cache) = ttl cache
   \<and> fetcher (SwapCache f g cache) = f \<and> groupFetcher (SwapCache f g cache) = g
   \<and> (items other = items cache \<and> ttl other = ttl cache \<longrightarrow>
        SwapCache f g other = SwapCache f g cache)
   \<and> (items cache key = Some item \<and> \<not> clock rt (reads rt) > expires item \<longrightarrow>
        Get (SwapCache f g cache) key rt =
          Inr ((object item, object item \<noteq> None), SwapCache f g cache,
               rt\<lparr>reads := Suc (reads rt)\<rparr>))
   \<and> (items cache key = Some item \<and> clock rt (reads rt) > expires item \<longrightarrow>
        Get (SwapCache f g cache) key rt =
          Inr ((object item, object item \<noteq> None), SwapCache f g cache,
               rt\<lparr>reads := Suc (reads rt),
                  spawned := spawned rt @
                    [if g \<noteq> None then GroupFetchTask key else FetchTask key]\<rparr>))
   \<and> (items cache key = None \<longrightarrow>
        Get (SwapCache f g cache) key rt =
          (if g \<noteq> None then groupFetch (SwapCache f g cache) key rt
           else Fetch (SwapCache f g cache) key rt))
   \<and> (f = Some fs \<and> fs key (world rt) = ((obj, err), w') \<longrightarrow>
        (\<exists>r cache' rt'. Fetch (SwapCache f g cache) key rt = Inr (r, cache', rt')
           \<and> world rt' = w' \<and> trace rt' = trace rt @ [FetcherCall key]
           \<and> r = (if err \<noteq> None then (None, False) else (obj, obj \<noteq> None))))
   \<and> (g = Some gs \<and> gs (world rt) = ((Some kvs, None), wg) \<longrightarrow>
        (\<exists>r cache'. groupFetch (SwapCache f g cache) key rt =
           Inr (r, cache',
                rt\<lparr>world := wg, trace := trace rt @ [GroupFetcherCall],
                   reads := reads rt + length kvs\<rparr>)))
   \<and> (g = Some gs \<and> gs (world rt) = ((m, ge), wg) \<and> (ge \<noteq> None \<or> m = None) \<longrightarrow>
        groupFetch (SwapCache f g cache) key rt =
          (if f = None
           then Inr ((None, False), SwapCache f g cache,
                     rt\<lparr>world := wg, trace := trace rt @ [GroupFetcherCall]\<rparr>)
           else Fetch (SwapCache f g cache) key
                  (rt\<lparr>world := wg, trace := trace rt @ [GroupFetcherCall]\<rparr>)))
   \<and> run (FetchTask key) (SwapCache f g cache) rt =
        map_sum (\<lambda>p. p) snd (Fetch (SwapCache f g cache) key rt)
   \<and> run (GroupFetchTask key) (SwapCache f g cache) rt =
        map_sum (\<lambda>p. p) snd (groupFetch (SwapCache f g cache) key rt)"
proof (intro conjI impI)
  show "items (SwapCache f g cache) = items cache" "ttl (SwapCache f g cache) = ttl cache"
    "fetcher (SwapCache f g cache) = f" "groupFetcher (SwapCache f g cache) = g"
    by (rule SwapCache_fields)+
next
  assume "items other = items cache \<and> ttl other = ttl cache"
  then show "SwapCache f g other = SwapCache f g cache"
    using SwapCache_forgets [of other cache f g] by simp
next
  assume "items cache key = Some item \<and> \<not> clock rt (reads rt) > expires item"
  then show "Get (SwapCache f g cache) key rt =
          Inr ((object item, object item \<noteq> None), SwapCache f g cache,
               rt\<lparr>reads := Suc (reads rt)\<rparr>)"
    using Get_hit [of "SwapCache f g cache" key item rt] by (simp add: SwapCache_fields)
next
  assume "items cache key = Some item \<and> clock rt (reads rt) > expires item"
  then show "Get (SwapCache f g cache) key rt =
          Inr ((object item, object item \<noteq> None), SwapCache f g cache,
               rt\<lparr>reads := Suc (reads rt),
                  spawned := spawned rt @
                    [if g \<noteq> None then GroupFetchTask key else FetchTask key]\<rparr>)"
    using Get_hit [of "SwapCache f g cache" key item rt]
    by (simp add: SwapCache_fields go_def)
next
  assume "items cache key = None"
  then show "Get (SwapCache f g cache) key rt =
          (if g \<noteq> None then groupFetch (SwapCache f g cache) key rt
           else Fetch (SwapCache f g cache) key rt)"
    using Get_miss [of "SwapCache f g cache" key rt] by (simp add: SwapCache_fields)
next
  assume "f = Some fs \<and> fs key (world rt) = ((obj, err), w')"
  then show "\<exists>r cache' rt'. Fetch (SwapCache f g cache) key rt = Inr (r, cache', rt')
           \<and> world rt' = w' \<and> trace rt' = trace rt @ [FetcherCall key]
           \<and> r = (if err \<noteq> None then (None, False) else (obj, obj \<noteq> None))"
    using Fetch_calls [of "SwapCache f g cache" fs key rt obj err w']
    by (simp add: SwapCache_fields)
next
  assume "g = Some gs \<and> gs (world rt) = ((Some kvs, None), wg)"
  then show "\<exists>r cache'. groupFetch (SwapCache f g cache) key rt =
           Inr (r, cache',
                rt\<lparr>world := wg, trace := trace rt @ [GroupFetcherCall],
                   reads := reads rt + length kvs\<rparr>)"
    using groupFetch_calls [of "SwapCache f g cache" gs rt kvs wg key]
    by (simp add: SwapCache_fields)
next
  assume "g = Some gs \<and> gs (world rt) = ((m, ge), wg) \<and> (ge \<noteq> None \<or> m = None)"
  then show "groupFetch (SwapCache f g cache) key rt =
          (if f = None
           then Inr ((None, False), SwapCache f g cache,
                     rt\<lparr>world := wg, trace := trace rt @ [GroupFetcherCall]\<rparr>)
           else Fetch (SwapCache f g cache) key
                  (rt\<lparr>world := wg, trace := trace rt @ [GroupFetcherCall]\<rparr>))"
    using groupFetch_failure [of "SwapCache f g cache" gs rt m ge wg key]
    by (simp add: SwapCache_fields)
next
  show "run (FetchTask key) (SwapCache f g cache) rt =
        map_sum (\<lambda>p. p) snd (Fetch (SwapCache f g cache) key rt)"
    by simp
next
  show "run (GroupFetchTask key) (SwapCache f g cache) rt =
        map_sum (\<lambda>p. p) snd (groupFetch (SwapCache f g cache) key rt)"
    by simp
qed

theorem SwapCache_keeps_entries_installs_strategies_witness:
  "items (SwapCache (Some countFetcher) (Some groupCountFetcher)
            ((New (Some countFetcher) 1 1)
               \<lparr>items := [''Hi'' \<mapsto> \<lparr>object = Some 1, expires = 1\<rparr>]\<rparr>))
     = [''Hi'' \<mapsto> \<lparr>object = Some 1, expires = 1\<rparr>]
   \<and> Get (SwapCache (Some countFetcher) (Some groupCountFetcher)
            ((New (Some countFetcher) 1 1)
               \<lparr>items := [''Hi'' \<mapsto> \<lparr>object = Some 1, expires = 1\<rparr>]\<rparr>))
         ''Hi'' ((start 1)\<lparr>world := (1, 0)\<rparr>)
     = Inr ((Some 1, True),
            SwapCache (Some countFetcher) (Some groupCountFetcher)
              ((New (Some countFetcher) 1 1)
                 \<lparr>items := [''Hi'' \<mapsto> \<lparr>object = Some 1, expires = 1\<rparr>]\<rparr>),
            (start 1)\<lparr>world := (1, 0), reads := 1\<rparr>)
   \<and> Get (SwapCache (Some countFetcher) (Some groupCountFetcher)
            ((New (Some countFetcher) 1 1)
               \<lparr>items := [''Hi'' \<mapsto> \<lparr>object = Some 1, expires = 1\<rparr>]\<rparr>))
         ''Hi'' ((start 5)\<lparr>world := (1, 0)\<rparr>)
     = Inr ((Some 1, True),
            SwapCache (Some countFetcher) (Some groupCountFetcher)
              ((New (Some countFetcher) 1 1)
                 \<lparr>items := [''Hi'' \<mapsto> \<lparr>object = Some 1, expires = 1\<rparr>]\<rparr>),
            (start 5)\<lparr>world := (1, 0), reads := 1, spawned := [GroupFetchTask ''Hi'']\<rparr>)
   \<and> run (GroupFetchTask ''Hi'')
         (SwapCache (Some countFetcher) (Some groupCountFetcher)
            ((New (Some countFetcher) 1 1)
               \<lparr>items := [''Hi'' \<mapsto> \<lparr>object = Some 1, expires = 1\<rparr>]\<rparr>))
         ((start 5)\<lparr>world := (1, 0), reads := 1\<rparr>)
     = Inr ((New (Some countFetcher) 1 1)
              \<lparr>groupFetcher := Some groupCountFetcher,
                 items := [''Hi'' \<mapsto> \<lparr>object = Some 1, expires = 7\<rparr>]\<rparr>,
            (start 5)\<lparr>world := (1, 1), trace := [GroupFetcherCall], reads := 2\<rparr>)
   \<and> Get (SwapCache (Some countFetcher) None
            ((NewGroup (Some groupCountFetcher) (Some countFetcher) 1 1)
               \<lparr>items := [''Hi'' \<mapsto> \<lparr>object = Some 1, expires = 1\<rparr>]\<rparr>))
         ''Bye'' ((start 5)\<lparr>world := (0, 1)\<rparr>)
     = Inr ((Some 1, True),
            (New (Some countFetcher) 1 1)
               \<lparr>items := [''Hi'' \<mapsto> \<lparr>object = Some 1, expires = 1\<rparr>,
                          ''Bye'' \<mapsto> \<lparr>object = Some 1, expires = 6\<rparr>]\<rparr>,
            (start 5)\<lparr>world := (1, 1), trace := [FetcherCall ''Bye''], reads := 1\<rparr>)"
  using SwapCache_keeps_entries_installs_strategies
    [where f = "Some countFetcher" and g = "Some groupCountFetcher"
       and cache = "(New (Some countFetcher) 1 1)
               \<lparr>items := [''Hi'' \<mapsto> \<lparr>object = Some 1, expires = 1\<rparr>]\<rparr>"
       and key = "''Hi''" and item = "\<lparr>object = Some 1, expires = 1\<rparr>"
       and rt = "(start 1)\<lparr>world := (1, 0)\<rparr>"]
    SwapCache_keeps_entries_installs_strategies
    [where f = "Some countFetcher" and g = "Some groupCountFetcher"
       and cache = "(New (Some countFetcher) 1 1)
               \<lparr>items := [''Hi'' \<mapsto> \<lparr>object = Some 1, expires = 1\<rparr>]\<rparr>"
       and key = "''Hi''" and item = "\<lparr>object = Some 1, expires = 1\<rparr>"
       and rt = "(start 5)\<lparr>world := (1, 0)\<rparr>"]
    SwapCache_keeps_entries_installs_strategies
    [where f = "Some countFetcher" and g = None
       and cache = "(NewGroup (Some groupCountFetcher) (Some countFetcher) 1 1)
               \<lparr>items := [''Hi'' \<mapsto> \<lparr>object = Some 1, expires = 1\<rparr>]\<rparr>"
       and key = "''Bye''" and rt = "(start 5)\<lparr>world := (0, 1)\<rparr>"
       and fs = countFetcher and obj = "Some 1" and err = None and w' = "(1, 1)"]
  by (simp add: New_def NewGroup_def SwapCache_def start_def ticking_def countFetcher_def
        groupCountFetcher_def Get_def time_Now_def go_def Let_def groupFetch_def Fetch_def
        Set_eq)

end
